theory Spec2Isabelle
  imports Complex_Main "HOL-Library.Multiset"
begin

section \<open>Resilience layer: \<open>apiRateLimit.ts\<close>\<close>

text \<open>
  \<open>RateLimitManager\<close> keeps one \<open>RateLimitInfo\<close> per endpoint name in a \<open>Map\<close>.
  Timestamps are the integer milliseconds of \<open>Date.now()\<close>; every function that reads
  the clock takes the reading as its first argument \<open>now\<close>.
\<close>

record RateLimitInfo =
  lastCall :: int
  callCount :: int
  resetTime :: int

type_synonym limits = "string \<rightharpoonup> RateLimitInfo"

definition DEFAULT_DELAY :: int where
  "DEFAULT_DELAY = 500"

definition MAX_CALLS_PER_MINUTE :: int where
  "MAX_CALLS_PER_MINUTE = 60"

definition RESET_INTERVAL :: int where
  "RESET_INTERVAL = 60 * 1000"

text \<open>
  \<open>shouldDelay(endpoint)\<close> returns the recommended delay and mutates the entry; the model
  returns the delay together with the updated map.
\<close>

definition shouldDelay :: "int \<Rightarrow> string \<Rightarrow> limits \<Rightarrow> int \<times> limits" where
  "shouldDelay now endpoint lims =
     (case lims endpoint of
        None \<Rightarrow>
          (0, lims(endpoint \<mapsto>
                 \<lparr>lastCall = now, callCount = 1, resetTime = now + RESET_INTERVAL\<rparr>))
      | Some info \<Rightarrow>
          if now > resetTime info then
            (0, lims(endpoint \<mapsto>
                   info\<lparr>callCount := 1, resetTime := now + RESET_INTERVAL, lastCall := now\<rparr>))
          else if callCount info \<ge> MAX_CALLS_PER_MINUTE then
            (resetTime info - now, lims)
          else
            (let timeSinceLastCall = now - lastCall info;
                 suggestedDelay = max 0 (DEFAULT_DELAY - timeSinceLastCall)
             in (suggestedDelay,
                 lims(endpoint \<mapsto> info\<lparr>callCount := callCount info + 1, lastCall := now\<rparr>))))"

definition recordFailure :: "int \<Rightarrow> string \<Rightarrow> int \<Rightarrow> limits \<Rightarrow> limits" where
  "recordFailure now endpoint statusCode lims =
     (if statusCode = 403 then
        (case lims endpoint of
           None \<Rightarrow> lims
         | Some info \<Rightarrow>
             lims(endpoint \<mapsto>
               info\<lparr>resetTime := now + RESET_INTERVAL * 2, callCount := MAX_CALLS_PER_MINUTE\<rparr>))
      else lims)"

text \<open>The manager before any call: no endpoint has an entry.\<close>

definition no_entries :: limits where
  "no_entries = Map.empty"

text \<open>
  Successive \<open>shouldDelay\<close> calls for one endpoint at the clock readings \<open>ts\<close>: the list of
  delays they return, the map being threaded from each call to the next.
\<close>

fun shouldDelay_calls :: "int list \<Rightarrow> string \<Rightarrow> limits \<Rightarrow> int list \<times> limits" where
  "shouldDelay_calls [] endpoint lims = ([], lims)"
| "shouldDelay_calls (t # ts) endpoint lims =
     (let (d, lims1) = shouldDelay t endpoint lims;
          (ds, lims2) = shouldDelay_calls ts endpoint lims1
      in (d # ds, lims2))"

text \<open>
  \<open>makeRateLimitedCall(endpoint, apiCall, options)\<close>. The world it runs in is the clock and
  the \<open>rateLimitManager\<close> singleton. \<open>await new Promise(resolve => setTimeout(resolve, d))\<close>
  advances the clock by \<open>d\<close> (by nothing when \<open>d\<close> is not positive). The \<open>n\<close>-th
  invocation of \<open>apiCall\<close> (counted from 0) takes \<open>fst (apiCall n)\<close> milliseconds and
  either resolves (\<open>Inr\<close>) or rejects with an error (\<open>Inl\<close>); \<open>status\<close> is
  \<open>error?.response?.status\<close>.
\<close>

record api_error =
  status :: "int option"
  message :: string

datatype call_error =
    Rethrown api_error
  | FailedToComplete string int

datatype event =
    Checked int
  | Delayed int
  | Called nat
  | Backoff int

record world =
  clock :: int
  limits :: "string \<rightharpoonup> RateLimitInfo"

record call_options =
  maxRetries :: "int option"
  retryDelay :: "int option"

definition sleep :: "int \<Rightarrow> world \<Rightarrow> world" where
  "sleep d w = w\<lparr>clock := clock w + max 0 d\<rparr>"

text \<open>The \<open>catch\<close> block's \<open>if (error?.response?.status) recordFailure(...)\<close>: 0 is falsy.\<close>

definition record_if_status :: "string \<Rightarrow> api_error \<Rightarrow> world \<Rightarrow> world" where
  "record_if_status endpoint e w =
     (case status e of
        None \<Rightarrow> w
      | Some st \<Rightarrow>
          if st = 0 then w
          else w\<lparr>limits := recordFailure (clock w) endpoint st (limits w)\<rparr>)"

text \<open>
  The \<open>for (let attempt = 0; attempt <= maxRetries; attempt++)\<close> loop from a given
  \<open>attempt\<close>, and after it the final \<open>throw new Error(`Failed to complete ...`)\<close>. The
  result is what the promise settles with, the world afterwards, and the events in order:
  \<open>Checked d\<close> for a \<open>shouldDelay\<close> call that returned \<open>d\<close>, \<open>Delayed d\<close> for the wait
  before the call, \<open>Called n\<close> for the \<open>n\<close>-th invocation of \<open>apiCall\<close>, \<open>Backoff d\<close> for
  the wait before a retry.
\<close>

function attempt_loop ::
  "string \<Rightarrow> (nat \<Rightarrow> int \<times> (api_error + 'a)) \<Rightarrow> int \<Rightarrow> int \<Rightarrow> nat \<Rightarrow> world
     \<Rightarrow> (call_error + 'a) \<times> world \<times> event list" where
  "attempt_loop endpoint apiCall maxR retryD attempt w =
     (if int attempt \<le> maxR then
        (case shouldDelay (clock w) endpoint (limits w) of
           (delay, lims1) \<Rightarrow>
             (let w1 = (if delay > 0 then sleep delay (w\<lparr>limits := lims1\<rparr>)
                        else w\<lparr>limits := lims1\<rparr>);
                  evs1 = Checked delay # (if delay > 0 then [Delayed delay] else []) @ [Called attempt];
                  w2 = w1\<lparr>clock := clock w1 + fst (apiCall attempt)\<rparr>
              in (case snd (apiCall attempt) of
                    Inr result \<Rightarrow> (Inr result, w2, evs1)
                  | Inl error \<Rightarrow>
                      (let w3 = record_if_status endpoint error w2
                       in if status error = Some 403 \<and> int attempt < maxR then
                            (let waitTime = retryD * (int attempt + 1)
                             in (case attempt_loop endpoint apiCall maxR retryD (Suc attempt)
                                        (sleep waitTime w3) of
                                   (r, w4, evs2) \<Rightarrow> (r, w4, evs1 @ Backoff waitTime # evs2)))
                          else (Inl (Rethrown error), w3, evs1)))))
      else (Inl (FailedToComplete endpoint maxR), w, []))"
  by pat_completeness auto
termination
  by (relation "measure (\<lambda>(endpoint, apiCall, maxR, retryD, attempt, w). nat (maxR + 1 - int attempt))")
     auto

declare attempt_loop.simps [simp del]

definition makeRateLimitedCall ::
  "string \<Rightarrow> (nat \<Rightarrow> int \<times> (api_error + 'a)) \<Rightarrow> call_options option \<Rightarrow> world
     \<Rightarrow> (call_error + 'a) \<times> world \<times> event list" where
  "makeRateLimitedCall endpoint apiCall options w =
     (let maxR = (case options of None \<Rightarrow> 2
                  | Some opts \<Rightarrow> (case maxRetries opts of None \<Rightarrow> 2 | Some m \<Rightarrow> m));
          retryD = (case options of None \<Rightarrow> 1000
                    | Some opts \<Rightarrow> (case retryDelay opts of None \<Rightarrow> 1000 | Some d \<Rightarrow> d))
      in attempt_loop endpoint apiCall maxR retryD 0 w)"

text \<open>Observations on an event list: the invocations made and the waits before retries.\<close>

fun calls_of :: "event list \<Rightarrow> nat list" where
  "calls_of [] = []"
| "calls_of (Called n # evs) = n # calls_of evs"
| "calls_of (_ # evs) = calls_of evs"

fun backoffs_of :: "event list \<Rightarrow> int list" where
  "backoffs_of [] = []"
| "backoffs_of (Backoff d # evs) = d # backoffs_of evs"
| "backoffs_of (_ # evs) = backoffs_of evs"

text \<open>
  Every \<open>shouldDelay\<close> reading in the event list is followed by the wait it recommends
  (when positive) and then by an invocation of \<open>apiCall\<close>.
\<close>

fun delays_respected :: "event list \<Rightarrow> bool" where
  "delays_respected [] = True"
| "delays_respected (Checked d # Delayed d' # Called n # evs) =
     (0 < d \<and> d' = d \<and> delays_respected evs)"
| "delays_respected (Checked d # Called n # evs) = (d \<le> 0 \<and> delays_respected evs)"
| "delays_respected (Checked d # evs) = False"
| "delays_respected (Delayed d # evs) = False"
| "delays_respected (Called n # evs) = False"
| "delays_respected (Backoff d # evs) = delays_respected evs"

definition is_rate_limited :: "api_error + 'a \<Rightarrow> bool" where
  "is_rate_limited r = (case r of Inl e \<Rightarrow> status e = Some 403 | Inr _ \<Rightarrow> False)"

text \<open>The events of one loop iteration up to and including the invocation.\<close>

definition attempt_events :: "int \<Rightarrow> nat \<Rightarrow> event list" where
  "attempt_events delay attempt =
     Checked delay # (if delay > 0 then [Delayed delay] else []) @ [Called attempt]"

text \<open>Two concrete upstream behaviours: every call is refused with status 403; every call
  fails with status 500.\<close>

definition forbidden :: api_error where
  "forbidden = \<lparr>status = Some 403, message = ''Forbidden''\<rparr>"

definition always_forbidden :: "nat \<Rightarrow> int \<times> (api_error + unit)" where
  "always_forbidden n = (10, Inl forbidden)"

definition world0 :: world where
  "world0 = \<lparr>clock = 0, limits = no_entries\<rparr>"

section \<open>Source selector: \<open>audioSourceOptimizer.ts\<close>\<close>

subsection \<open>The string operations the selector uses\<close>

text \<open>
  \<open>String.prototype.includes\<close> (here \<open>includes_str\<close>), \<open>toLowerCase\<close> and \<open>trim\<close> on
  strings of 8-bit characters: \<open>toLowerCase\<close> maps \<open>A..Z\<close> to \<open>a..z\<close> and leaves every
  other character as it is, \<open>trim\<close> removes the white space and line terminators of
  that range from both ends.
\<close>

fun startsWith :: "string \<Rightarrow> string \<Rightarrow> bool" where
  "startsWith s [] = True"
| "startsWith [] (p # ps) = False"
| "startsWith (c # cs) (p # ps) = (c = p \<and> startsWith cs ps)"

fun includes_str :: "string \<Rightarrow> string \<Rightarrow> bool" where
  "includes_str [] p = (p = [])"
| "includes_str (c # cs) p = (startsWith (c # cs) p \<or> includes_str cs p)"

definition lower_char :: "char \<Rightarrow> char" where
  "lower_char c =
     (case map_of (zip ''ABCDEFGHIJKLMNOPQRSTUVWXYZ'' ''abcdefghijklmnopqrstuvwxyz'') c of
        None \<Rightarrow> c
      | Some l \<Rightarrow> l)"

definition toLowerCase :: "string \<Rightarrow> string" where
  "toLowerCase s = map lower_char s"

definition is_space :: "char \<Rightarrow> bool" where
  "is_space c = ((of_char c :: nat) \<in> {9, 10, 11, 12, 13, 32, 160})"

definition trim :: "string \<Rightarrow> string" where
  "trim s = rev (dropWhile is_space (rev (dropWhile is_space s)))"

subsection \<open>Candidates and decisions\<close>

datatype quality = Low | Medium | High | Unknown

record AudioQuality =
  url :: string
  bitrate :: "nat option"
  format :: string
  quality :: quality

record AudioSourceInfo =
  selectedUrl :: string
  detectedQuality :: quality
  detectedBitrate :: "nat option"
  detectedFormat :: "string option"
  availableQualities :: "AudioQuality list"

text \<open>
  An element of a track's \<open>downloadUrl\<close> array, \<open>{ quality?: string; link: string }\<close>.
\<close>

record download_item =
  item_quality :: "string option"
  link :: string

text \<open>The decision returned for no input and for no usable candidate.\<close>

definition empty_decision :: AudioSourceInfo where
  "empty_decision =
     \<lparr>selectedUrl = [], detectedQuality = Unknown, detectedBitrate = None,
      detectedFormat = None, availableQualities = []\<rparr>"

text \<open>The filter \<open>item && item.link && item.link.trim() !== ''\<close>.\<close>

definition usable :: "download_item \<Rightarrow> bool" where
  "usable item = (link item \<noteq> [] \<and> trim (link item) \<noteq> [])"

text \<open>The first \<open>if\<close> chain of the \<open>map\<close> callback, on the lower-cased quality tag.\<close>

definition quality_of_tag :: "string \<Rightarrow> quality \<times> nat option" where
  "quality_of_tag qualityLower =
     (if includes_str qualityLower ''320'' \<or> qualityLower = ''320kbps'' \<or> qualityLower = ''high''
      then (High, Some 320)
      else if includes_str qualityLower ''256'' \<or> qualityLower = ''256kbps''
      then (High, Some 256)
      else if includes_str qualityLower ''160'' \<or> qualityLower = ''160kbps'' \<or> qualityLower = ''medium''
      then (Medium, Some 160)
      else if includes_str qualityLower ''128'' \<or> qualityLower = ''128kbps''
      then (Medium, Some 128)
      else if includes_str qualityLower ''96'' \<or> qualityLower = ''96kbps'' \<or> qualityLower = ''low''
      then (Low, Some 96)
      else if includes_str qualityLower ''64'' \<or> qualityLower = ''64kbps''
      then (Low, Some 64)
      else (Unknown, None))"

text \<open>The second chain, on the lower-cased URL, tried when the tag gave \<open>unknown\<close>.\<close>

definition quality_of_url :: "string \<Rightarrow> quality \<times> nat option" where
  "quality_of_url urlLower =
     (if includes_str urlLower ''_320.'' \<or> includes_str urlLower ''320kbps'' then (High, Some 320)
      else if includes_str urlLower ''_256.'' \<or> includes_str urlLower ''256kbps'' then (High, Some 256)
      else if includes_str urlLower ''_160.'' \<or> includes_str urlLower ''160kbps'' then (Medium, Some 160)
      else if includes_str urlLower ''_128.'' \<or> includes_str urlLower ''128kbps'' then (Medium, Some 128)
      else if includes_str urlLower ''_96.'' \<or> includes_str urlLower ''96kbps'' then (Low, Some 96)
      else (Unknown, None))"

definition format_of_url :: "string \<Rightarrow> string" where
  "format_of_url u =
     (if includes_str u ''.m4a'' \<or> includes_str u ''aac'' then ''aac''
      else if includes_str u ''.opus'' then ''opus''
      else if includes_str u ''.mp4'' then ''mp4''
      else ''mp3'')"

text \<open>The \<open>map\<close> callback: \<open>item.quality || 'unknown'\<close> is the tag that is parsed.\<close>

definition analyse :: "download_item \<Rightarrow> AudioQuality" where
  "analyse item =
     (let u = link item;
          q = (case item_quality item of
                 None \<Rightarrow> ''unknown''
               | Some t \<Rightarrow> if t = [] then ''unknown'' else t);
          byTag = quality_of_tag (toLowerCase q);
          detected = (if fst byTag = Unknown \<and> u \<noteq> [] then quality_of_url (toLowerCase u)
                      else byTag)
      in \<lparr>url = u, bitrate = snd detected, format = format_of_url u, quality = fst detected\<rparr>)"

subsection \<open>Sorting\<close>

fun qualityPriority :: "quality \<Rightarrow> int" where
  "qualityPriority High = 4"
| "qualityPriority Medium = 3"
| "qualityPriority Low = 2"
| "qualityPriority Unknown = 1"

text \<open>\<open>a.bitrate\<close> used as a condition: \<open>undefined\<close> and 0 are falsy.\<close>

definition has_bitrate :: "AudioQuality \<Rightarrow> bool" where
  "has_bitrate a = (case bitrate a of None \<Rightarrow> False | Some n \<Rightarrow> n \<noteq> 0)"

text \<open>The comparator passed to \<open>sort\<close>.\<close>

definition compareQualities :: "AudioQuality \<Rightarrow> AudioQuality \<Rightarrow> int" where
  "compareQualities a b =
     (let priorityDiff = qualityPriority (quality b) - qualityPriority (quality a)
      in if priorityDiff \<noteq> 0 then priorityDiff
         else if has_bitrate a \<and> has_bitrate b then int (the (bitrate b)) - int (the (bitrate a))
         else if has_bitrate a \<and> \<not> has_bitrate b then - 1
         else if \<not> has_bitrate a \<and> has_bitrate b then 1
         else 0)"

text \<open>
  \<open>Array.prototype.sort\<close> is a stable sort: an element stays before a later one unless
  the comparator puts it strictly after. Insertion from the right computes that order.
\<close>

fun insert_by :: "('a \<Rightarrow> 'a \<Rightarrow> int) \<Rightarrow> 'a \<Rightarrow> 'a list \<Rightarrow> 'a list" where
  "insert_by cmp x [] = [x]"
| "insert_by cmp x (y # ys) =
     (if cmp x y \<le> 0 then x # y # ys else y # insert_by cmp x ys)"

fun sort_by :: "('a \<Rightarrow> 'a \<Rightarrow> int) \<Rightarrow> 'a list \<Rightarrow> 'a list" where
  "sort_by cmp [] = []"
| "sort_by cmp (x # xs) = insert_by cmp x (sort_by cmp xs)"

definition selectOptimalAudioSource :: "download_item list \<Rightarrow> AudioSourceInfo" where
  "selectOptimalAudioSource downloadUrls =
     (if downloadUrls = [] then empty_decision
      else
        (let audioQualities = map analyse (filter usable downloadUrls);
             sortedQualities = sort_by compareQualities audioQualities
         in case sortedQualities of
              [] \<Rightarrow> empty_decision
            | selectedAudio # rest \<Rightarrow>
                \<lparr>selectedUrl = url selectedAudio,
                 detectedQuality = quality selectedAudio,
                 detectedBitrate = bitrate selectedAudio,
                 detectedFormat = Some (format selectedAudio),
                 availableQualities = sortedQualities\<rparr>))"

text \<open>
  The order the ranking is specified by: tier descending, then bitrate descending, a
  candidate with a bitrate before one without.
\<close>

definition ranks_at_least :: "AudioQuality \<Rightarrow> AudioQuality \<Rightarrow> bool" where
  "ranks_at_least a b =
     (qualityPriority (quality a) > qualityPriority (quality b)
      \<or> (qualityPriority (quality a) = qualityPriority (quality b)
         \<and> (case (bitrate a, bitrate b) of
               (Some x, Some y) \<Rightarrow> x \<ge> y
             | (Some x, None) \<Rightarrow> True
             | (None, Some y) \<Rightarrow> False
             | (None, None) \<Rightarrow> True)))"

text \<open>
  What the comparator decides: \<open>a\<close> may stand before \<open>b\<close> when it does not return a
  positive number. The bitrate it effectively compares counts a missing one as 0.
\<close>

definition comes_first :: "AudioQuality \<Rightarrow> AudioQuality \<Rightarrow> bool" where
  "comes_first a b = (compareQualities a b \<le> 0)"

definition effective_bitrate :: "AudioQuality \<Rightarrow> nat" where
  "effective_bitrate a = (case bitrate a of None \<Rightarrow> 0 | Some n \<Rightarrow> n)"

section \<open>Playback controller: \<open>MusicContext.tsx\<close>\<close>

subsection \<open>State\<close>

text \<open>
  The fields of \<open>Song\<close> and \<open>Playlist\<close> that playback reads. \<open>downloadUrl\<close>,
  \<open>language\<close> and \<open>currentIndex\<close> are optional in the source.
\<close>

record Song =
  song_id :: string
  name :: string
  song_url :: string
  downloadUrl :: "download_item list option"
  language :: "string option"

record Playlist =
  playlist_id :: string
  playlist_name :: string
  tracks :: "Song list"
  currentIndex :: "int option"
  playlist_language :: "string option"

datatype repeat_mode = RepeatNone | RepeatOne | RepeatAll

text \<open>
  The \<open>HTMLAudioElement\<close> behind \<open>audioRef\<close>: \<open>position\<close> is the value last assigned to
  its \<open>currentTime\<close>, \<open>play_requests\<close> counts the calls of \<open>play()\<close>. A \<open>play()\<close> call
  clears \<open>paused\<close>; how its promise settles is the platform's answer and arrives later.
\<close>

record audio_element =
  paused :: bool
  position :: real
  src :: string
  element_volume :: real
  play_requests :: nat

text \<open>
  The provider's state. The refs \<open>queueRef\<close>, \<open>queueIndexRef\<close> and
  \<open>activePlaylistRef\<close> mirror \<open>queue\<close>, \<open>queueIndex\<close> and \<open>activePlaylist\<close> after every
  render, so the model reads the fields themselves. \<open>tracked\<close> lists the songs handed to
  \<open>trackPlay\<close>.
\<close>

record player =
  currentSong :: "Song option"
  isPlaying :: bool
  queue :: "Song list"
  queueIndex :: int
  activePlaylist :: "Playlist option"
  repeatMode :: repeat_mode
  isShuffle :: bool
  volume :: real
  currentTime :: real
  duration :: real
  error :: "string option"
  currentAudioInfo :: "AudioSourceInfo option"
  audioRef :: "audio_element option"
  playPauseTimeoutRef :: "nat option"
  tracked :: "Song list"

text \<open>Array indexing \<open>xs[i]\<close>: \<open>undefined\<close> outside the array.\<close>

definition item_at :: "'a list \<Rightarrow> int \<Rightarrow> 'a option" where
  "item_at xs i = (if 0 \<le> i \<and> i < int (length xs) then Some (xs ! nat i) else None)"

subsection \<open>\<open>playSong\<close> and \<open>proceedWithPlayback\<close>\<close>

definition no_audio_url :: string where
  "no_audio_url = ''Cannot play song: No audio URL available''"

text \<open>A string used as a condition together with \<open>.trim() !== ''\<close>.\<close>

definition nonblank :: "string \<Rightarrow> bool" where
  "nonblank u = (u \<noteq> [] \<and> trim u \<noteq> [])"

text \<open>The \<open>if / else if / else\<close> that picks the \<open>AudioSourceInfo\<close>; \<open>None\<close> is the
  \<open>else\<close> branch that reports the error and returns.\<close>

definition resolve_source :: "Song \<Rightarrow> AudioSourceInfo option" where
  "resolve_source song =
     (case downloadUrl song of
        Some (d # ds) \<Rightarrow> Some (selectOptimalAudioSource (d # ds))
      | _ \<Rightarrow>
          if nonblank (song_url song) then
            Some \<lparr>selectedUrl = song_url song, detectedQuality = Unknown, detectedBitrate = None,
                  detectedFormat = None, availableQualities = []\<rparr>
          else None)"

text \<open>The synchronous part of the \<open>if (audioRef.current)\<close> block: pause when playing,
  rewind, assign source and volume, call \<open>play()\<close>.\<close>

definition start_element :: "string \<Rightarrow> real \<Rightarrow> audio_element \<Rightarrow> audio_element" where
  "start_element u v a =
     a\<lparr>paused := False, position := 0, src := u, element_volume := v,
       play_requests := Suc (play_requests a)\<rparr>"

definition proceedWithPlayback :: "Song \<Rightarrow> player \<Rightarrow> player" where
  "proceedWithPlayback song s =
     (case resolve_source song of
        None \<Rightarrow> s\<lparr>error := Some no_audio_url\<rparr>
      | Some audioSourceInfo \<Rightarrow>
          if \<not> nonblank (selectedUrl audioSourceInfo) then s\<lparr>error := Some no_audio_url\<rparr>
          else
            (let s1 = s\<lparr>error := None, currentSong := Some song,
                        currentAudioInfo := Some audioSourceInfo, tracked := tracked s @ [song]\<rparr>
             in case audioRef s1 of
                  None \<Rightarrow> s1
                | Some a \<Rightarrow>
                    s1\<lparr>audioRef := Some (start_element (selectedUrl audioSourceInfo) (volume s) a)\<rparr>))"

text \<open>\<open>playSong(song)\<close>; the argument is \<open>None\<close> when the caller indexed outside its list.\<close>

definition playSong :: "Song option \<Rightarrow> player \<Rightarrow> player" where
  "playSong song s =
     (case song of
        None \<Rightarrow> s
      | Some sg \<Rightarrow> proceedWithPlayback sg (s\<lparr>playPauseTimeoutRef := None\<rparr>))"

subsection \<open>\<open>playNext\<close> and the \<open>ended\<close> handler\<close>

definition playlistToUse :: "player \<Rightarrow> Song list" where
  "playlistToUse s = (case activePlaylist s of Some p \<Rightarrow> tracks p | None \<Rightarrow> queue s)"

definition playlistIndex :: "player \<Rightarrow> int" where
  "playlistIndex s =
     (case activePlaylist s of
        Some p \<Rightarrow> (case currentIndex p of Some i \<Rightarrow> i | None \<Rightarrow> queueIndex s)
      | None \<Rightarrow> queueIndex s)"

text \<open>\<open>currentPlaylist?.language\<close> used as a condition: the tag when it is a non-empty
  string.\<close>

definition language_tag :: "player \<Rightarrow> string option" where
  "language_tag s =
     (case activePlaylist s of
        None \<Rightarrow> None
      | Some p \<Rightarrow> (case playlist_language p of
                     None \<Rightarrow> None
                   | Some l \<Rightarrow> if l = [] then None else Some l))"

text \<open>\<open>playlistToUse.map((song, index) => ({ song, index })).filter(...)\<close>.\<close>

definition sameLanguageSongs :: "Song list \<Rightarrow> string \<Rightarrow> (Song \<times> int) list" where
  "sameLanguageSongs pl lang =
     filter (\<lambda>(song, index). language song = Some lang) (zip pl (map int [0..<length pl]))"

fun findIndex :: "('a \<Rightarrow> bool) \<Rightarrow> 'a list \<Rightarrow> int" where
  "findIndex P [] = - 1"
| "findIndex P (x # xs) =
     (if P x then 0 else (let r = findIndex P xs in if r < 0 then - 1 else r + 1))"

text \<open>
  The loop \<open>do { i = Math.floor(Math.random() * n) } while (i === cur && n > 1)\<close>. The
  successive values of \<open>Math.random()\<close> are the list \<open>rs\<close>; the result is the index drawn
  and the values left, or \<open>None\<close> when the list is used up before the loop ends.
\<close>

fun random_other :: "real list \<Rightarrow> nat \<Rightarrow> int \<Rightarrow> (int \<times> real list) option" where
  "random_other [] n cur = None"
| "random_other (r # rs) n cur =
     (let i = \<lfloor>r * real n\<rfloor>
      in if i = cur \<and> n > 1 then random_other rs n cur else Some (i, rs))"

text \<open>The two places that stop: \<open>setIsPlaying(false)\<close>, and on the element \<open>pause()\<close> and
  \<open>currentTime = 0\<close>.\<close>

definition stop_playback :: "player \<Rightarrow> player" where
  "stop_playback s =
     s\<lparr>isPlaying := False,
       audioRef := map_option (\<lambda>a. a\<lparr>paused := True, position := 0\<rparr>) (audioRef s)\<rparr>"

text \<open>The tail of \<open>playNext\<close> once \<open>nextIndex\<close> is chosen: update the active playlist's
  cursor, \<open>setQueueIndex\<close>, \<open>playSong(playlistToUse[nextIndex])\<close>.\<close>

definition move_to :: "int \<Rightarrow> player \<Rightarrow> player" where
  "move_to nextIndex s =
     playSong (item_at (playlistToUse s) nextIndex)
       (s\<lparr>activePlaylist := map_option (\<lambda>p. p\<lparr>currentIndex := Some nextIndex\<rparr>) (activePlaylist s),
          queueIndex := nextIndex\<rparr>)"

text \<open>
  \<open>playNext()\<close>, given the values \<open>Math.random()\<close> will return. \<open>None\<close>: the random loop
  has not ended within the values given, or a value outside \<open>[0, 1)\<close> indexed outside
  the pool (which throws in the source; \<open>Math.random\<close> never returns one).
\<close>

definition playNext :: "real list \<Rightarrow> player \<Rightarrow> (player \<times> real list) option" where
  "playNext rs s =
     (let pl = playlistToUse s; idx = playlistIndex s
      in if length pl > 0 \<and> idx \<ge> 0 then
           (if isShuffle s \<and> length pl > 1 then
              (case language_tag s of
                 Some lang \<Rightarrow>
                   (let same = sameLanguageSongs pl lang
                    in if length same > 1 then
                         (case random_other rs (length same)
                                 (findIndex (\<lambda>(song, index). index = idx) same) of
                            None \<Rightarrow> None
                          | Some (k, rs') \<Rightarrow>
                              (case item_at same k of
                                 None \<Rightarrow> None
                               | Some (song, index) \<Rightarrow> Some (move_to index s, rs')))
                       else
                         Some (move_to (if idx + 1 \<ge> int (length pl) then 0 else idx + 1) s, rs))
               | None \<Rightarrow>
                   (case random_other rs (length pl) idx of
                      None \<Rightarrow> None
                    | Some (i, rs') \<Rightarrow> Some (move_to i s, rs')))
            else
              (let nextIndex = idx + 1
               in if nextIndex \<ge> int (length pl) then
                    (if repeatMode s = RepeatAll then Some (move_to 0 s, rs)
                     else Some (stop_playback s, rs))
                  else Some (move_to nextIndex s, rs)))
         else Some (stop_playback s, rs))"

text \<open>
  The \<open>ended\<close> listener: \<open>setIsPlaying(false); setCurrentTime(0); playNext()\<close>. It is
  added once, by an effect with an empty dependency list, so the \<open>playNext\<close> it calls is
  the closure of the render that added it: that closure reads the queue, the cursor and
  the playlist through the refs, and \<open>repeatMode\<close>, \<open>isShuffle\<close> and \<open>volume\<close> as they
  were in that render (\<open>rm\<close>, \<open>sh\<close>, \<open>vol\<close>; at mount \<open>none\<close>, \<open>false\<close>, 1). The three
  state values themselves are not changed by the handler.
\<close>

definition handleEnded ::
  "repeat_mode \<Rightarrow> bool \<Rightarrow> real \<Rightarrow> real list \<Rightarrow> player \<Rightarrow> (player \<times> real list) option" where
  "handleEnded rm sh vol rs s =
     (case playNext rs (s\<lparr>isPlaying := False, currentTime := 0,
                           repeatMode := rm, isShuffle := sh, volume := vol\<rparr>) of
        None \<Rightarrow> None
      | Some (s', rs') \<Rightarrow>
          Some (s'\<lparr>repeatMode := repeatMode s, isShuffle := isShuffle s, volume := volume s\<rparr>, rs'))"

subsection \<open>\<open>seekTo\<close>\<close>

text \<open>
  A JavaScript number as far as \<open>seekTo\<close> distinguishes them. Assigning a non-finite
  value to \<open>currentTime\<close> throws a \<open>TypeError\<close>; \<open>seekTo\<close> catches it.
\<close>

datatype jsnum = NaN | PosInfinity | NegInfinity | Finite real

datatype dom_exception = TypeError

definition set_currentTime :: "jsnum \<Rightarrow> audio_element \<Rightarrow> dom_exception + audio_element" where
  "set_currentTime t a = (case t of Finite x \<Rightarrow> Inr (a\<lparr>position := x\<rparr>) | _ \<Rightarrow> Inl TypeError)"

definition is_nan :: "jsnum \<Rightarrow> bool" where
  "is_nan t = (t = NaN)"

definition ge_zero :: "jsnum \<Rightarrow> bool" where
  "ge_zero t = (case t of Finite x \<Rightarrow> x \<ge> 0 | PosInfinity \<Rightarrow> True | _ \<Rightarrow> False)"

definition seekTo :: "jsnum \<Rightarrow> player \<Rightarrow> player" where
  "seekTo time s =
     (case audioRef s of
        None \<Rightarrow> s
      | Some a \<Rightarrow>
          if \<not> is_nan time \<and> ge_zero time then
            (case set_currentTime time a of
               Inl e \<Rightarrow> s
             | Inr a' \<Rightarrow>
                 (case time of
                    Finite x \<Rightarrow> s\<lparr>audioRef := Some a', currentTime := x\<rparr>
                  | _ \<Rightarrow> s))
          else s)"

subsection \<open>Concrete tracks and states\<close>

definition trackA :: Song where
  "trackA = \<lparr>song_id = ''a'', name = ''Song A'', song_url = ''https://cdn.example/a.mp3'',
             downloadUrl = Some [\<lparr>item_quality = Some ''320kbps'',
                                  link = ''https://cdn.example/a_320.mp4''\<rparr>],
             language = Some ''english''\<rparr>"

definition trackB :: Song where
  "trackB = \<lparr>song_id = ''b'', name = ''Song B'', song_url = ''https://cdn.example/b.mp3'',
             downloadUrl = Some [\<lparr>item_quality = Some ''160kbps'',
                                  link = ''https://cdn.example/b_160.mp4''\<rparr>],
             language = Some ''english''\<rparr>"

text \<open>A track with no audio candidates and a stream address in its \<open>url\<close> field; one
  whose only candidate has an empty link; a track in another language.\<close>

definition trackNoCandidates :: Song where
  "trackNoCandidates =
     \<lparr>song_id = ''c'', name = ''Song C'', song_url = ''https://cdn.example/c.mp3'',
      downloadUrl = Some [], language = Some ''english''\<rparr>"

definition trackEmptyLinks :: Song where
  "trackEmptyLinks =
     \<lparr>song_id = ''d'', name = ''Song D'', song_url = ''https://cdn.example/d.mp3'',
      downloadUrl = Some [\<lparr>item_quality = Some ''320kbps'', link = []\<rparr>],
      language = Some ''english''\<rparr>"

definition trackF :: Song where
  "trackF = \<lparr>song_id = ''f'', name = ''Chanson F'', song_url = ''https://cdn.example/f.mp3'',
             downloadUrl = Some [\<lparr>item_quality = Some ''160kbps'',
                                  link = ''https://cdn.example/f_160.mp4''\<rparr>],
             language = Some ''french''\<rparr>"

definition element0 :: audio_element where
  "element0 = \<lparr>paused = True, position = 0, src = [], element_volume = 1, play_requests = 0\<rparr>"

text \<open>The provider's initial state, with the audio element mounted.\<close>

definition player0 :: player where
  "player0 =
     \<lparr>currentSong = None, isPlaying = False, queue = [], queueIndex = 0, activePlaylist = None,
      repeatMode = RepeatNone, isShuffle = False, volume = 1, currentTime = 0, duration = 0,
      error = None, currentAudioInfo = None, audioRef = Some element0,
      playPauseTimeoutRef = None, tracked = []\<rparr>"

text \<open>Track A of the queue \<open>[A, B]\<close> playing, 42 s into its 100 s, repeat mode \<open>one\<close>.\<close>

definition playingA :: player where
  "playingA =
     player0\<lparr>currentSong := Some trackA, isPlaying := True, queue := [trackA, trackB],
             queueIndex := 0, repeatMode := RepeatOne, currentTime := 42, duration := 100,
             audioRef := Some (element0\<lparr>paused := False, position := 42,
                                         src := ''https://cdn.example/a_320.mp4''\<rparr>)\<rparr>"

text \<open>Shuffle on, repeat mode \<open>none\<close>, an active playlist tagged \<open>english\<close>: the
  playlist \<open>[F, B]\<close> with the cursor on B, its only english track; and the playlist
  \<open>[A, B, F]\<close> with the cursor on A.\<close>

definition playlistFB :: Playlist where
  "playlistFB =
     \<lparr>playlist_id = ''playlist-1'', playlist_name = ''Current Playlist'',
      tracks = [trackF, trackB], currentIndex = Some 1, playlist_language = Some ''english''\<rparr>"

definition shuffledFB :: player where
  "shuffledFB =
     player0\<lparr>currentSong := Some trackB, isPlaying := True, queue := [trackF, trackB],
             queueIndex := 1, activePlaylist := Some playlistFB, isShuffle := True\<rparr>"

definition playlistABF :: Playlist where
  "playlistABF =
     \<lparr>playlist_id = ''playlist-2'', playlist_name = ''Current Playlist'',
      tracks = [trackA, trackB, trackF], currentIndex = Some 0,
      playlist_language = Some ''english''\<rparr>"

definition shuffledABF :: player where
  "shuffledABF =
     player0\<lparr>currentSong := Some trackA, isPlaying := True, queue := [trackA, trackB, trackF],
             queueIndex := 0, activePlaylist := Some playlistABF, isShuffle := True\<rparr>"

text \<open>
  Track A was playing when \<open>setPlaylistAndPlay([D], 0)\<close> was called, D being the track
  whose only candidate has an empty link: queue and active playlist were replaced,
  \<open>playSong(D)\<close> was rejected, A is still the current song; the repeat mode is \<open>all\<close>.
\<close>

definition playlistD :: Playlist where
  "playlistD =
     \<lparr>playlist_id = ''playlist-3'', playlist_name = ''Current Playlist'',
      tracks = [trackEmptyLinks], currentIndex = Some 0, playlist_language = None\<rparr>"

definition stalledD :: player where
  "stalledD =
     playingA\<lparr>queue := [trackEmptyLinks], queueIndex := 0, activePlaylist := Some playlistD,
              repeatMode := RepeatAll, error := Some no_audio_url\<rparr>"

text \<open>The decision \<open>selectOptimalAudioSource\<close> reaches for track A.\<close>

definition decisionA :: AudioSourceInfo where
  "decisionA =
     \<lparr>selectedUrl = ''https://cdn.example/a_320.mp4'', detectedQuality = High,
      detectedBitrate = Some 320, detectedFormat = Some ''mp4'',
      availableQualities =
        [\<lparr>url = ''https://cdn.example/a_320.mp4'', bitrate = Some 320, format = ''mp4'',
          quality = High\<rparr>]\<rparr>"

text \<open>
  The candidate pool as the specification words it: the indices of the tracks that share
  the language of the track at index \<open>cur\<close>.
\<close>

definition language_pool :: "Song list \<Rightarrow> nat \<Rightarrow> nat list" where
  "language_pool pl cur = filter (\<lambda>i. language (pl ! i) = language (pl ! cur)) [0..<length pl]"

text \<open>The sequential fallback of the shuffle branch: one past the cursor, 0 past the end.\<close>

definition wrap_next :: "int \<Rightarrow> nat \<Rightarrow> int" where
  "wrap_next idx n = (if idx + 1 \<ge> int n then 0 else idx + 1)"

section \<open>Processing graph: \<open>AudioProcessor\<close>\<close>

subsection \<open>The platform and the processor's fields\<close>

text \<open>
  Web Audio nodes and contexts are identified by numbers. The calls the processor makes
  on the platform are logged in order; the platform decides which of them throw.
\<close>

datatype web_audio_call =
    NewAudioContext nat
  | Resume nat
  | CreateMediaElementSource nat nat
  | CreateGain nat nat
  | CreateAnalyser nat nat
  | CreateBiquadFilter nat nat
  | CreateDynamicsCompressor nat nat
  | SetupEqualizer
  | SetupDynamicsProcessing
  | Connect nat nat
  | ConnectDestination nat nat
  | Disconnect nat
  | Close nat

datatype js_error = AlreadyConnected | OtherError

record platform =
  has_AudioContext :: bool
  starts_suspended :: bool
  throws :: "web_audio_call \<Rightarrow> js_error option"

record AudioProcessor =
  audioContext :: "nat option"
  sourceNode :: "nat option"
  gainNode :: "nat option"
  lowShelf :: "nat option"
  midPeaking :: "nat option"
  highShelf :: "nat option"
  compressorNode :: "nat option"
  limiterNode :: "nat option"
  analyserNode :: "nat option"
  isInitialized :: bool
  enableEQ :: bool
  enableLimiter :: bool

record machine =
  proc :: AudioProcessor
  calls :: "web_audio_call list"
  next_id :: nat

subsection \<open>Statements that may throw\<close>

text \<open>
  A statement takes the machine to a result and a new machine; \<open>Inl e\<close> is the exception
  \<open>e\<close> propagating, with the mutations made so far kept.
\<close>

type_synonym 'a prog = "machine \<Rightarrow> (js_error + 'a) \<times> machine"

definition ret :: "'a \<Rightarrow> 'a prog" where
  "ret x = (\<lambda>m. (Inr x, m))"

definition throw :: "js_error \<Rightarrow> 'a prog" where
  "throw e = (\<lambda>m. (Inl e, m))"

definition bind :: "'a prog \<Rightarrow> ('a \<Rightarrow> 'b prog) \<Rightarrow> 'b prog" where
  "bind f g = (\<lambda>m. case f m of (Inl e, m') \<Rightarrow> (Inl e, m') | (Inr x, m') \<Rightarrow> g x m')"

definition seq :: "unit prog \<Rightarrow> 'b prog \<Rightarrow> 'b prog" where
  "seq f g = bind f (\<lambda>_. g)"

definition try_catch :: "'a prog \<Rightarrow> (js_error \<Rightarrow> 'a prog) \<Rightarrow> 'a prog" where
  "try_catch f h = (\<lambda>m. case f m of (Inl e, m') \<Rightarrow> h e m' | (Inr x, m') \<Rightarrow> (Inr x, m'))"

definition modify :: "(AudioProcessor \<Rightarrow> AudioProcessor) \<Rightarrow> unit prog" where
  "modify f = (\<lambda>m. (Inr (), m\<lparr>proc := f (proc m)\<rparr>))"

text \<open>A platform call: logged, then it throws or returns as the platform decides.\<close>

definition call :: "platform \<Rightarrow> web_audio_call \<Rightarrow> unit prog" where
  "call P c = (\<lambda>m. (case throws P c of Some e \<Rightarrow> Inl e | None \<Rightarrow> Inr (),
                     m\<lparr>calls := calls m @ [c]\<rparr>))"

text \<open>A platform call that creates an object: the new object gets the next number.\<close>

definition create :: "platform \<Rightarrow> (nat \<Rightarrow> web_audio_call) \<Rightarrow> nat prog" where
  "create P mk =
     (\<lambda>m. case throws P (mk (next_id m)) of
             Some e \<Rightarrow> (Inl e, m\<lparr>calls := calls m @ [mk (next_id m)]\<rparr>)
           | None \<Rightarrow> (Inr (next_id m),
                       m\<lparr>calls := calls m @ [mk (next_id m)], next_id := Suc (next_id m)\<rparr>))"

fun perform :: "platform \<Rightarrow> web_audio_call list \<Rightarrow> unit prog" where
  "perform P [] = ret ()"
| "perform P (c # cs) = seq (call P c) (perform P cs)"

subsection \<open>\<open>dispose\<close>\<close>

text \<open>\<open>try { node.disconnect() } catch (e) { }\<close> for a field that is not null.\<close>

definition disconnect_quietly :: "platform \<Rightarrow> nat option \<Rightarrow> unit prog" where
  "disconnect_quietly P node =
     (case node of
        None \<Rightarrow> ret ()
      | Some n \<Rightarrow> try_catch (call P (Disconnect n)) (\<lambda>e. ret ()))"

definition close_quietly :: "platform \<Rightarrow> nat option \<Rightarrow> unit prog" where
  "close_quietly P ctx =
     (case ctx of
        None \<Rightarrow> ret ()
      | Some c \<Rightarrow> try_catch (call P (Close c)) (\<lambda>e. ret ()))"

definition dispose :: "platform \<Rightarrow> unit prog" where
  "dispose P =
     seq (\<lambda>m. disconnect_quietly P (sourceNode (proc m)) m)
    (seq (modify (\<lambda>a. a\<lparr>sourceNode := None\<rparr>))
    (seq (\<lambda>m. disconnect_quietly P (gainNode (proc m)) m)
    (seq (modify (\<lambda>a. a\<lparr>gainNode := None\<rparr>))
    (seq (\<lambda>m. disconnect_quietly P (analyserNode (proc m)) m)
    (seq (modify (\<lambda>a. a\<lparr>analyserNode := None\<rparr>))
    (seq (\<lambda>m. disconnect_quietly P (lowShelf (proc m)) m)
    (seq (\<lambda>m. disconnect_quietly P (midPeaking (proc m)) m)
    (seq (\<lambda>m. disconnect_quietly P (highShelf (proc m)) m)
    (seq (modify (\<lambda>a. a\<lparr>lowShelf := None, midPeaking := None, highShelf := None\<rparr>))
    (seq (\<lambda>m. disconnect_quietly P (compressorNode (proc m)) m)
    (seq (modify (\<lambda>a. a\<lparr>compressorNode := None\<rparr>))
    (seq (\<lambda>m. disconnect_quietly P (limiterNode (proc m)) m)
    (seq (modify (\<lambda>a. a\<lparr>limiterNode := None\<rparr>))
    (seq (\<lambda>m. close_quietly P (audioContext (proc m)) m)
    (seq (modify (\<lambda>a. a\<lparr>audioContext := None\<rparr>))
         (modify (\<lambda>a. a\<lparr>isInitialized := False\<rparr>)))))))))))))))))"

subsection \<open>\<open>initializeProcessing\<close>\<close>

text \<open>The \<open>connect\<close> calls of \<open>connectProcessingChain\<close>, in order.\<close>

definition chain_connections :: "AudioProcessor \<Rightarrow> web_audio_call list" where
  "chain_connections a =
     (case (sourceNode a, audioContext a) of
        (Some source, Some ctx) \<Rightarrow>
          (let eq = (case (lowShelf a, midPeaking a, highShelf a) of
                       (Some l, Some m, Some h) \<Rightarrow>
                         if enableEQ a then Some (l, m, h) else None
                     | _ \<Rightarrow> None);
               c1 = (case eq of
                       Some (l, m, h) \<Rightarrow> [Connect source l, Connect l m, Connect m h]
                     | None \<Rightarrow> []);
               n1 = (case eq of Some (l, m, h) \<Rightarrow> h | None \<Rightarrow> source);
               dyn = (case (compressorNode a, limiterNode a) of
                        (Some c, Some l) \<Rightarrow> if enableLimiter a then Some (c, l) else None
                      | _ \<Rightarrow> None);
               c2 = (case dyn of Some (c, l) \<Rightarrow> [Connect n1 c, Connect c l] | None \<Rightarrow> []);
               n2 = (case dyn of Some (c, l) \<Rightarrow> l | None \<Rightarrow> n1);
               c3 = (case gainNode a of Some g \<Rightarrow> [Connect n2 g] | None \<Rightarrow> []);
               n3 = (case gainNode a of Some g \<Rightarrow> g | None \<Rightarrow> n2);
               c4 = (case analyserNode a of Some an \<Rightarrow> [Connect n3 an] | None \<Rightarrow> [])
           in c1 @ c2 @ c3 @ c4 @ [ConnectDestination n3 ctx])
      | _ \<Rightarrow> [])"

definition connectProcessingChain :: "platform \<Rightarrow> unit prog" where
  "connectProcessingChain P = (\<lambda>m. perform P (chain_connections (proc m)) m)"

text \<open>The body of \<open>if (this.config.enableEQ)\<close> and of \<open>if (this.config.enableLimiter)\<close>.\<close>

definition create_equalizer :: "platform \<Rightarrow> nat \<Rightarrow> unit prog" where
  "create_equalizer P ctx =
     bind (create P (CreateBiquadFilter ctx)) (\<lambda>l.
       seq (modify (\<lambda>a. a\<lparr>lowShelf := Some l\<rparr>))
         (bind (create P (CreateBiquadFilter ctx)) (\<lambda>md.
            seq (modify (\<lambda>a. a\<lparr>midPeaking := Some md\<rparr>))
              (bind (create P (CreateBiquadFilter ctx)) (\<lambda>h.
                 seq (modify (\<lambda>a. a\<lparr>highShelf := Some h\<rparr>))
                   (call P SetupEqualizer))))))"

definition create_dynamics :: "platform \<Rightarrow> nat \<Rightarrow> unit prog" where
  "create_dynamics P ctx =
     bind (create P (CreateDynamicsCompressor ctx)) (\<lambda>c.
       seq (modify (\<lambda>a. a\<lparr>compressorNode := Some c\<rparr>))
         (bind (create P (CreateDynamicsCompressor ctx)) (\<lambda>l.
            seq (modify (\<lambda>a. a\<lparr>limiterNode := Some l\<rparr>))
              (call P SetupDynamicsProcessing))))"

text \<open>The statements after the source node exists, up to \<open>return true\<close>.\<close>

definition build_graph :: "platform \<Rightarrow> nat \<Rightarrow> bool prog" where
  "build_graph P ctx =
     bind (create P (CreateGain ctx)) (\<lambda>g.
       seq (modify (\<lambda>a. a\<lparr>gainNode := Some g\<rparr>))
         (bind (create P (CreateAnalyser ctx)) (\<lambda>an.
            seq (modify (\<lambda>a. a\<lparr>analyserNode := Some an\<rparr>))
              (seq (\<lambda>m. if enableEQ (proc m) then create_equalizer P ctx m else ret () m)
                 (seq (\<lambda>m. if enableLimiter (proc m) then create_dynamics P ctx m else ret () m)
                    (seq (connectProcessingChain P)
                       (seq (modify (\<lambda>a. a\<lparr>isInitialized := True\<rparr>))
                          (ret True))))))))"

text \<open>The inner \<open>try\<close> around \<open>createMediaElementSource\<close>: \<open>True\<close> when the source node
  was created, \<open>False\<close> when its \<open>catch\<close> closed the context and returned \<open>false\<close>.\<close>

definition attach_source :: "platform \<Rightarrow> nat \<Rightarrow> bool prog" where
  "attach_source P ctx =
     try_catch
       (bind (create P (CreateMediaElementSource ctx)) (\<lambda>n.
          seq (modify (\<lambda>a. a\<lparr>sourceNode := Some n\<rparr>)) (ret True)))
       (\<lambda>e. if e = AlreadyConnected then
              seq (call P (Close ctx))
                (seq (modify (\<lambda>a. a\<lparr>audioContext := None\<rparr>)) (ret False))
            else throw e)"

text \<open>The \<open>try\<close> block of \<open>initializeProcessing\<close>.\<close>

definition initialize_body :: "platform \<Rightarrow> bool prog" where
  "initialize_body P =
     seq (\<lambda>m. if isInitialized (proc m) then dispose P m else ret () m)
       (if \<not> has_AudioContext P then ret False
        else
          bind (create P NewAudioContext) (\<lambda>ctx.
            seq (modify (\<lambda>a. a\<lparr>audioContext := Some ctx\<rparr>))
              (seq (if starts_suspended P then call P (Resume ctx) else ret ())
                 (bind (attach_source P ctx)
                    (\<lambda>attached. if attached then build_graph P ctx else ret False)))))"

text \<open>
  \<open>initializeProcessing(audioElement)\<close>: the \<open>try\<close> block, and the \<open>catch\<close> that disposes
  and returns \<open>false\<close>. The audio element is the one of the player; the platform decides
  whether it is already connected.
\<close>

definition initializeProcessing :: "platform \<Rightarrow> bool prog" where
  "initializeProcessing P = try_catch (initialize_body P) (\<lambda>e. seq (dispose P) (ret False))"

text \<open>What a call of \<open>dispose\<close> does on the platform, and the fields it leaves.\<close>

definition disconnects :: "nat option \<Rightarrow> web_audio_call list" where
  "disconnects node = (case node of None \<Rightarrow> [] | Some n \<Rightarrow> [Disconnect n])"

definition closes :: "nat option \<Rightarrow> web_audio_call list" where
  "closes ctx = (case ctx of None \<Rightarrow> [] | Some c \<Rightarrow> [Close c])"

definition disposal_calls :: "AudioProcessor \<Rightarrow> web_audio_call list" where
  "disposal_calls a =
     disconnects (sourceNode a) @ disconnects (gainNode a) @ disconnects (analyserNode a)
     @ disconnects (lowShelf a) @ disconnects (midPeaking a) @ disconnects (highShelf a)
     @ disconnects (compressorNode a) @ disconnects (limiterNode a)
     @ closes (audioContext a)"

definition released :: "AudioProcessor \<Rightarrow> AudioProcessor" where
  "released a =
     a\<lparr>audioContext := None, sourceNode := None, gainNode := None, lowShelf := None,
       midPeaking := None, highShelf := None, compressorNode := None, limiterNode := None,
       analyserNode := None, isInitialized := False\<rparr>"

text \<open>A processor that was never initialised, and a platform on which creating the
  analyser throws.\<close>

definition processor0 :: AudioProcessor where
  "processor0 =
     \<lparr>audioContext = None, sourceNode = None, gainNode = None, lowShelf = None,
      midPeaking = None, highShelf = None, compressorNode = None, limiterNode = None,
      analyserNode = None, isInitialized = False, enableEQ = True, enableLimiter = True\<rparr>"

definition machine0 :: machine where
  "machine0 = \<lparr>proc = processor0, calls = [], next_id = 0\<rparr>"

fun analyser_fails :: "web_audio_call \<Rightarrow> js_error option" where
  "analyser_fails (CreateAnalyser ctx n) = Some OtherError"
| "analyser_fails c = None"

definition no_analyser :: platform where
  "no_analyser = \<lparr>has_AudioContext = True, starts_suspended = False, throws = analyser_fails\<rparr>"

section \<open>Properties of the resilience layer\<close>

lemma shouldDelay_capped:
  assumes "lims endpoint = Some info"
    and "MAX_CALLS_PER_MINUTE \<le> callCount info"
    and "now \<le> resetTime info"
  shows "shouldDelay now endpoint lims = (resetTime info - now, lims)"
  using assms by (simp add: shouldDelay_def)

lemma shouldDelay_calls_capped:
  assumes "lims endpoint = Some info"
    and "MAX_CALLS_PER_MINUTE \<le> callCount info"
    and "\<forall>t \<in> set ts. t \<le> resetTime info"
  shows "shouldDelay_calls ts endpoint lims = (map (\<lambda>t. resetTime info - t) ts, lims)"
  using assms
proof (induction ts)
  case Nil
  then show ?case by simp
next
  case (Cons t ts)
  then have "shouldDelay t endpoint lims = (resetTime info - t, lims)"
    by (simp add: shouldDelay_capped)
  with Cons show ?case by simp
qed

lemma calls_of_append: "calls_of (xs @ ys) = calls_of xs @ calls_of ys"
  by (induction xs rule: calls_of.induct) simp_all

lemma backoffs_of_append: "backoffs_of (xs @ ys) = backoffs_of xs @ backoffs_of ys"
  by (induction xs rule: backoffs_of.induct) simp_all

lemma attempt_events_obs:
  "calls_of (attempt_events d n) = [n]"
  "backoffs_of (attempt_events d n) = []"
  "delays_respected (attempt_events d n @ evs) = delays_respected evs"
  "delays_respected (attempt_events d n) "
  by (simp_all add: attempt_events_def)

lemma attempt_loop_stop:
  assumes "int a \<le> maxR"
    and "\<not> is_rate_limited (snd (apiCall a)) \<or> int a = maxR"
  shows "\<exists>d w'. attempt_loop ep apiCall maxR rd a w =
           ((case snd (apiCall a) of Inr v \<Rightarrow> Inr v | Inl e \<Rightarrow> Inl (Rethrown e)), w',
            attempt_events d a)"
  using assms
  by (subst attempt_loop.simps)
     (auto simp: is_rate_limited_def attempt_events_def Let_def split: prod.splits sum.splits)

lemma attempt_loop_retry:
  assumes "int a < maxR"
    and "is_rate_limited (snd (apiCall a))"
  shows "\<exists>d w1. attempt_loop ep apiCall maxR rd a w =
           (case attempt_loop ep apiCall maxR rd (Suc a) w1 of
              (r, w4, evs2) \<Rightarrow> (r, w4, attempt_events d a @ Backoff (rd * (int a + 1)) # evs2))"
proof -
  obtain d l1 where sd: "shouldDelay (clock w) ep (limits w) = (d, l1)"
    by fastforce
  obtain e where e: "snd (apiCall a) = Inl e" "status e = Some 403"
    using assms(2) by (auto simp: is_rate_limited_def split: sum.splits)
  define w1 where "w1 = (if d > 0 then sleep d (w\<lparr>limits := l1\<rparr>) else w\<lparr>limits := l1\<rparr>)"
  define w3 where "w3 = sleep (rd * (int a + 1))
                     (record_if_status ep e (w1\<lparr>clock := clock w1 + fst (apiCall a)\<rparr>))"
  have "attempt_loop ep apiCall maxR rd a w =
          (case attempt_loop ep apiCall maxR rd (Suc a) w3 of
             (r, w4, evs2) \<Rightarrow> (r, w4, attempt_events d a @ Backoff (rd * (int a + 1)) # evs2))"
    using assms(1)
    by (subst attempt_loop.simps)
       (simp add: sd e attempt_events_def Let_def w1_def w3_def)
  then show ?thesis by blast
qed

lemma attempt_loop_run:
  assumes "int (a + k) \<le> maxR"
    and "\<forall>j<k. is_rate_limited (snd (apiCall (a + j)))"
    and "\<not> is_rate_limited (snd (apiCall (a + k))) \<or> int (a + k) = maxR"
  shows "\<exists>w' evs. attempt_loop ep apiCall maxR rd a w =
           ((case snd (apiCall (a + k)) of Inr v \<Rightarrow> Inr v | Inl e \<Rightarrow> Inl (Rethrown e)), w', evs)
         \<and> calls_of evs = [a..<Suc (a + k)]
         \<and> backoffs_of evs = map (\<lambda>j. rd * (int j + 1)) [a..<a + k]
         \<and> delays_respected evs"
  using assms
proof (induction k arbitrary: a w)
  case 0
  then obtain d w' where
    "attempt_loop ep apiCall maxR rd a w =
       ((case snd (apiCall a) of Inr v \<Rightarrow> Inr v | Inl e \<Rightarrow> Inl (Rethrown e)), w', attempt_events d a)"
    using attempt_loop_stop[of a maxR apiCall ep rd w] by auto
  then show ?case by (simp add: attempt_events_obs)
next
  case (Suc k)
  have lim: "is_rate_limited (snd (apiCall a))" using Suc.prems(2) by force
  have lt: "int a < maxR" using Suc.prems(1) by simp
  obtain d w1 where step:
    "attempt_loop ep apiCall maxR rd a w =
       (case attempt_loop ep apiCall maxR rd (Suc a) w1 of
          (r, w4, evs2) \<Rightarrow> (r, w4, attempt_events d a @ Backoff (rd * (int a + 1)) # evs2))"
    using attempt_loop_retry[of a maxR apiCall ep rd w] lt lim by blast
  have p1: "int (Suc a + k) \<le> maxR" using Suc.prems(1) by simp
  have p2: "\<forall>j<k. is_rate_limited (snd (apiCall (Suc a + j)))"
  proof (intro allI impI)
    fix j assume "j < k"
    then have "Suc j < Suc k" by simp
    with Suc.prems(2) have "is_rate_limited (snd (apiCall (a + Suc j)))" by blast
    then show "is_rate_limited (snd (apiCall (Suc a + j)))" by simp
  qed
  have p3: "\<not> is_rate_limited (snd (apiCall (Suc a + k))) \<or> int (Suc a + k) = maxR"
    using Suc.prems(3) by simp
  from Suc.IH[of "Suc a" w1] p1 p2 p3 obtain w' evs where ih:
    "attempt_loop ep apiCall maxR rd (Suc a) w1 =
       ((case snd (apiCall (Suc a + k)) of Inr v \<Rightarrow> Inr v | Inl e \<Rightarrow> Inl (Rethrown e)), w', evs)"
    "calls_of evs = [Suc a..<Suc (Suc a + k)]"
    "backoffs_of evs = map (\<lambda>j. rd * (int j + 1)) [Suc a..<Suc a + k]"
    "delays_respected evs"
    by blast
  have u1: "[a..<Suc (a + Suc k)] = a # [Suc a..<Suc (Suc a + k)]"
    by (simp add: upt_conv_Cons)
  have u2: "[a..<a + Suc k] = a # [Suc a..<Suc a + k]"
    by (simp add: upt_conv_Cons)
  show ?case
    unfolding step ih(1) u1 u2
    by (simp add: calls_of_append backoffs_of_append attempt_events_obs ih(2-4))
qed


text \<open>
  C7 (as amended). For an endpoint whose entry has reached the cap of 60 calls, every
  \<open>shouldDelay\<close> call made no later than \<open>resetTime\<close> returns the remaining window time
  \<open>resetTime - now\<close> and leaves the entry as it is; that delay is positive strictly
  before \<open>resetTime\<close> (and 0 at the instant \<open>now = resetTime\<close>, where the window is not yet
  reset). Below the cap the delay is the shortfall against the 500 ms spacing,
  \<open>max 0 (500 - (now - lastCall))\<close>, so 0 once 500 ms have elapsed; it is 0 on the first
  call to an endpoint and on the first call after \<open>resetTime\<close> has passed.
\<close>

theorem shouldDelay_window:
  assumes "lims endpoint = Some info"
  shows "(MAX_CALLS_PER_MINUTE \<le> callCount info \<longrightarrow>
            (\<forall>t \<in> set ts. t \<le> resetTime info) \<longrightarrow>
            shouldDelay_calls ts endpoint lims = (map (\<lambda>t. resetTime info - t) ts, lims)
            \<and> (\<forall>t \<in> set ts. t < resetTime info \<longrightarrow> 0 < resetTime info - t))
       \<and> (callCount info < MAX_CALLS_PER_MINUTE \<longrightarrow> now \<le> resetTime info \<longrightarrow>
            fst (shouldDelay now endpoint lims) = max 0 (500 - (now - lastCall info))
            \<and> (500 \<le> now - lastCall info \<longrightarrow> fst (shouldDelay now endpoint lims) = 0))
       \<and> (resetTime info < now \<longrightarrow> fst (shouldDelay now endpoint lims) = 0)
       \<and> (lims other = None \<longrightarrow> fst (shouldDelay now other lims) = 0)"
  using assms shouldDelay_calls_capped[of lims endpoint info ts]
  by (auto simp: shouldDelay_def DEFAULT_DELAY_def Let_def)

theorem shouldDelay_window_witness:
  "shouldDelay_calls [1000, 59999, 60000] ''search''
      [''search'' \<mapsto> \<lparr>lastCall = 900, callCount = 60, resetTime = 60000\<rparr>]
     = ([59000, 1, 0], [''search'' \<mapsto> \<lparr>lastCall = 900, callCount = 60, resetTime = 60000\<rparr>])
   \<and> fst (shouldDelay 70000 ''search''
        [''search'' \<mapsto> \<lparr>lastCall = 900, callCount = 60, resetTime = 60000\<rparr>]) = 0
   \<and> fst (shouldDelay 70000 ''lyrics''
        [''search'' \<mapsto> \<lparr>lastCall = 900, callCount = 60, resetTime = 60000\<rparr>]) = 0"
  using shouldDelay_window
    [of "[''search'' \<mapsto> \<lparr>lastCall = 900, callCount = 60, resetTime = 60000\<rparr>]" "''search''"
        "\<lparr>lastCall = 900, callCount = 60, resetTime = 60000\<rparr>"
        "[1000, 59999, 60000]" 70000 "''lyrics''"]
  by (simp add: MAX_CALLS_PER_MINUTE_def)

text \<open>
  The claim as stated fails at the end of the window: sixty calls at time 0 bring the
  counter to the cap with \<open>resetTime = 60000\<close>; a call at \<open>now = 60000\<close> finds the window
  not yet reset (the code resets only when \<open>now > resetTime\<close>) and returns 0.
\<close>

theorem shouldDelay_positive_counterexample:
  "map_option callCount
      (snd (shouldDelay_calls (replicate 60 0) ''search'' no_entries) ''search'') = Some 60
   \<and> map_option resetTime
      (snd (shouldDelay_calls (replicate 60 0) ''search'' no_entries) ''search'') = Some 60000
   \<and> fst (shouldDelay 60000 ''search''
        (snd (shouldDelay_calls (replicate 60 0) ''search'' no_entries))) = 0"
  by code_simp

text \<open>
  C8 (as amended). For an endpoint that has an entry, \<open>recordFailure\<close> with status 403
  sets \<open>resetTime\<close> to \<open>now + 120000\<close> (twice the default window) and the counter to the
  cap, whatever the counter was; every \<open>shouldDelay\<close> call made before that new
  \<open>resetTime\<close> then returns the positive remaining time.
\<close>

theorem recordFailure_saturates:
  assumes "lims endpoint = Some info"
  shows "recordFailure now endpoint 403 lims =
           lims(endpoint \<mapsto> info\<lparr>resetTime := now + 120000, callCount := 60\<rparr>)
       \<and> (\<forall>t. t < now + 120000 \<longrightarrow>
             fst (shouldDelay t endpoint (recordFailure now endpoint 403 lims)) = now + 120000 - t
           \<and> 0 < fst (shouldDelay t endpoint (recordFailure now endpoint 403 lims)))"
  using assms
  by (simp add: recordFailure_def shouldDelay_def RESET_INTERVAL_def MAX_CALLS_PER_MINUTE_def)

theorem recordFailure_saturates_witness:
  "recordFailure 5000 ''search'' 403 [''search'' \<mapsto> \<lparr>lastCall = 4000, callCount = 1, resetTime = 64000\<rparr>]
     = [''search'' \<mapsto> \<lparr>lastCall = 4000, callCount = 60, resetTime = 125000\<rparr>]
   \<and> fst (shouldDelay 6000 ''search''
        (recordFailure 5000 ''search'' 403
           [''search'' \<mapsto> \<lparr>lastCall = 4000, callCount = 1, resetTime = 64000\<rparr>])) = 119000"
proof -
  have entry: "[''search'' \<mapsto> \<lparr>lastCall = 4000, callCount = 1, resetTime = 64000\<rparr>] ''search''
                 = Some \<lparr>lastCall = 4000, callCount = 1, resetTime = 64000\<rparr>"
    by simp
  note th = recordFailure_saturates
    [of "[''search'' \<mapsto> \<lparr>lastCall = 4000, callCount = 1, resetTime = 64000\<rparr>]" "''search''"
        "\<lparr>lastCall = 4000, callCount = 1, resetTime = 64000\<rparr>" 5000, OF entry]
  have a: "recordFailure 5000 ''search'' 403
             [''search'' \<mapsto> \<lparr>lastCall = 4000, callCount = 1, resetTime = 64000\<rparr>]
           = [''search'' \<mapsto> \<lparr>lastCall = 4000, callCount = 60, resetTime = 125000\<rparr>]"
    using th[THEN conjunct1] by simp
  have b: "fst (shouldDelay 6000 ''search''
             (recordFailure 5000 ''search'' 403
                [''search'' \<mapsto> \<lparr>lastCall = 4000, callCount = 1, resetTime = 64000\<rparr>])) = 119000"
    using th[THEN conjunct2, THEN spec, of 6000] by simp
  show ?thesis using a b by blast
qed

text \<open>
  The claim as stated fails for an endpoint without an entry: \<open>recordFailure\<close> is guarded
  by \<open>if (info)\<close> and records nothing, so the next \<open>shouldDelay\<close> is a first call and
  returns 0.
\<close>

theorem recordFailure_unknown_endpoint_counterexample:
  "recordFailure 0 ''search'' 403 no_entries ''search'' = None
   \<and> fst (shouldDelay 1 ''search'' (recordFailure 0 ''search'' 403 no_entries)) = 0"
  by (simp add: recordFailure_def shouldDelay_def no_entries_def)

text \<open>
  C6 (as amended). With \<open>maxRetries = maxR\<close> and \<open>retryDelay = rd\<close>: let attempt \<open>k\<close> be
  the first whose outcome is not a status-403 failure, or the last permitted attempt
  \<open>maxR\<close> when attempts \<open>0..maxR\<close> all fail with 403. Then \<open>apiCall\<close> is invoked exactly
  for attempts \<open>0..k\<close>, each invocation after the wait \<open>shouldDelay\<close> recommended, the
  waits before the retries are \<open>rd * 1, ..., rd * k\<close>, and the call settles with attempt
  \<open>k\<close>'s own outcome: its value, or its error rethrown. This holds in particular when
  the retries are exhausted (\<open>k = maxR\<close>): the last 403 error itself is rethrown.
\<close>

theorem makeRateLimitedCall_policy:
  assumes "int k \<le> maxR"
    and "\<forall>j<k. is_rate_limited (snd (apiCall j))"
    and "\<not> is_rate_limited (snd (apiCall k)) \<or> int k = maxR"
  shows "\<exists>w' evs.
           makeRateLimitedCall ep apiCall (Some \<lparr>maxRetries = Some maxR, retryDelay = Some rd\<rparr>) w
             = ((case snd (apiCall k) of Inr v \<Rightarrow> Inr v | Inl e \<Rightarrow> Inl (Rethrown e)), w', evs)
         \<and> calls_of evs = [0..<Suc k]
         \<and> backoffs_of evs = map (\<lambda>j. rd * (int j + 1)) [0..<k]
         \<and> delays_respected evs"
  using attempt_loop_run[of 0 k maxR apiCall ep rd w] assms
  by (simp add: makeRateLimitedCall_def)

theorem makeRateLimitedCall_policy_witness:
  "\<exists>w' evs.
     makeRateLimitedCall ''search'' always_forbidden
        (Some \<lparr>maxRetries = Some 2, retryDelay = Some 1000\<rparr>) world0
       = (Inl (Rethrown forbidden), w', evs)
     \<and> calls_of evs = [0, 1, 2]
     \<and> backoffs_of evs = [1000, 2000]
     \<and> delays_respected evs"
  using makeRateLimitedCall_policy[of 2 2 always_forbidden "''search''" 1000 world0]
  by (simp add: always_forbidden_def is_rate_limited_def forbidden_def upt_rec numeral_2_eq_2)

text \<open>
  The claim as stated fails when the retries are exhausted: with one retry allowed and an
  upstream that always answers 403, the call settles with the upstream's own error, not
  with the \<open>Failed to complete ...\<close> error of the last line of the function.
\<close>

theorem retries_exhausted_counterexample:
  "fst (makeRateLimitedCall ''search'' always_forbidden
          (Some \<lparr>maxRetries = Some 1, retryDelay = Some 1000\<rparr>) world0)
     = Inl (Rethrown forbidden)
   \<and> fst (makeRateLimitedCall ''search'' always_forbidden
          (Some \<lparr>maxRetries = Some 1, retryDelay = Some 1000\<rparr>) world0)
     \<noteq> Inl (FailedToComplete ''search'' 1)"
  by code_simp

section \<open>Properties of the source selector\<close>

lemma insert_by_mset: "mset (insert_by cmp x xs) = add_mset x (mset xs)"
  by (induction xs) simp_all

lemma sort_by_mset: "mset (sort_by cmp xs) = mset xs"
  by (induction xs) (simp_all add: insert_by_mset)

lemma insert_by_set: "set (insert_by cmp x xs) = insert x (set xs)"
  by (induction xs) auto

lemma comes_first_iff:
  "comes_first a b \<longleftrightarrow>
     qualityPriority (quality a) > qualityPriority (quality b)
     \<or> (qualityPriority (quality a) = qualityPriority (quality b) \<and> effective_bitrate a \<ge> effective_bitrate b)"
  by (auto simp: comes_first_def compareQualities_def has_bitrate_def effective_bitrate_def Let_def
           split: option.splits)

lemma comes_first_total: "\<not> comes_first a b \<Longrightarrow> comes_first b a"
  by (auto simp: comes_first_iff)

lemma comes_first_trans: "comes_first a b \<Longrightarrow> comes_first b c \<Longrightarrow> comes_first a c"
  by (auto simp: comes_first_iff)

lemma insert_by_sorted:
  "sorted_wrt comes_first xs \<Longrightarrow> sorted_wrt comes_first (insert_by compareQualities x xs)"
proof (induction xs)
  case Nil
  then show ?case by simp
next
  case (Cons y ys)
  show ?case
  proof (cases "compareQualities x y \<le> 0")
    case True
    then have xy: "comes_first x y" by (simp add: comes_first_def)
    have "\<forall>z \<in> set ys. comes_first x z"
      using Cons.prems xy comes_first_trans by auto
    with True xy Cons.prems show ?thesis by simp
  next
    case False
    then have yx: "comes_first y x" using comes_first_total by (simp add: comes_first_def)
    from Cons have "sorted_wrt comes_first (insert_by compareQualities x ys)" by simp
    with False yx Cons.prems show ?thesis by (simp add: insert_by_set)
  qed
qed

lemma sort_by_sorted: "sorted_wrt comes_first (sort_by compareQualities xs)"
  by (induction xs) (simp_all add: insert_by_sorted)

lemma quality_of_tag_bitrate: "snd (quality_of_tag t) \<noteq> Some 0"
  by (simp add: quality_of_tag_def)

lemma quality_of_url_bitrate: "snd (quality_of_url t) \<noteq> Some 0"
  by (simp add: quality_of_url_def)

lemma analyse_bitrate: "bitrate (analyse item) \<noteq> Some 0"
  by (simp add: analyse_def Let_def quality_of_tag_bitrate quality_of_url_bitrate)

lemma comes_first_ranks:
  "bitrate a \<noteq> Some 0 \<Longrightarrow> bitrate b \<noteq> Some 0 \<Longrightarrow> comes_first a b = ranks_at_least a b"
  by (auto simp: comes_first_iff ranks_at_least_def effective_bitrate_def split: option.splits)

lemma sorted_wrt_ranks:
  assumes "sorted_wrt comes_first xs" and "\<forall>x \<in> set xs. bitrate x \<noteq> Some 0"
  shows "sorted_wrt ranks_at_least xs"
  using assms
  by (induction xs) (auto simp: comes_first_ranks)


lemma tag_96: "quality_of_tag (toLowerCase ''96kbps'') = (Low, Some 96)"
  by code_simp

lemma tag_160: "quality_of_tag (toLowerCase ''160kbps'') = (Medium, Some 160)"
  by code_simp

lemma tag_320: "quality_of_tag (toLowerCase ''320kbps'') = (High, Some 320)"
  by code_simp

lemma analyse_tagged:
  "analyse \<lparr>item_quality = Some ''96kbps'', link = u\<rparr>
     = \<lparr>url = u, bitrate = Some 96, format = format_of_url u, quality = Low\<rparr>"
  "analyse \<lparr>item_quality = Some ''160kbps'', link = u\<rparr>
     = \<lparr>url = u, bitrate = Some 160, format = format_of_url u, quality = Medium\<rparr>"
  "analyse \<lparr>item_quality = Some ''320kbps'', link = u\<rparr>
     = \<lparr>url = u, bitrate = Some 320, format = format_of_url u, quality = High\<rparr>"
  by (simp_all add: analyse_def tag_96 tag_160 tag_320)

text \<open>
  C5. For every list of candidates, the list kept in \<open>availableQualities\<close> is a
  rearrangement of the parsed usable candidates, ordered by tier descending, then by
  bitrate descending, a candidate with a bitrate before one without; the selected URL,
  tier and bitrate are those of its first element, which ranks at least as high as every
  parsed candidate. In particular, for candidates tagged \<open>96kbps\<close>, \<open>160kbps\<close>,
  \<open>320kbps\<close> with (non-blank) URLs the selected URL is the one tagged \<open>320kbps\<close> and the
  tier is \<open>high\<close>.
\<close>

theorem selectOptimalAudioSource_ranking:
  "mset (availableQualities (selectOptimalAudioSource ds)) = mset (map analyse (filter usable ds))
   \<and> sorted_wrt ranks_at_least (availableQualities (selectOptimalAudioSource ds))
   \<and> (filter usable ds \<noteq> [] \<longrightarrow>
        (\<exists>sel rest.
           availableQualities (selectOptimalAudioSource ds) = sel # rest
           \<and> selectedUrl (selectOptimalAudioSource ds) = url sel
           \<and> detectedQuality (selectOptimalAudioSource ds) = quality sel
           \<and> detectedBitrate (selectOptimalAudioSource ds) = bitrate sel
           \<and> (\<forall>c \<in> set (map analyse (filter usable ds)). ranks_at_least sel c)))
   \<and> (trim u1 \<noteq> [] \<and> trim u2 \<noteq> [] \<and> trim u3 \<noteq> [] \<longrightarrow>
        selectedUrl (selectOptimalAudioSource
           [\<lparr>item_quality = Some ''96kbps'', link = u1\<rparr>,
            \<lparr>item_quality = Some ''160kbps'', link = u2\<rparr>,
            \<lparr>item_quality = Some ''320kbps'', link = u3\<rparr>]) = u3
      \<and> detectedQuality (selectOptimalAudioSource
           [\<lparr>item_quality = Some ''96kbps'', link = u1\<rparr>,
            \<lparr>item_quality = Some ''160kbps'', link = u2\<rparr>,
            \<lparr>item_quality = Some ''320kbps'', link = u3\<rparr>]) = High)"
proof -
  define cands where "cands = map analyse (filter usable ds)"
  define sorted where "sorted = sort_by compareQualities cands"
  have perm: "mset sorted = mset cands"
    by (simp add: sorted_def sort_by_mset)
  have nz: "\<forall>x \<in> set sorted. bitrate x \<noteq> Some 0"
  proof
    fix x assume "x \<in> set sorted"
    then have "x \<in> set cands" using perm by (metis set_mset_mset)
    then show "bitrate x \<noteq> Some 0" by (auto simp: cands_def analyse_bitrate)
  qed
  have ord: "sorted_wrt ranks_at_least sorted"
    using sort_by_sorted[of cands] nz by (simp add: sorted_def sorted_wrt_ranks)
  have avail: "availableQualities (selectOptimalAudioSource ds) = sorted"
    by (cases sorted)
       (auto simp: selectOptimalAudioSource_def empty_decision_def Let_def sorted_def cands_def
             split: list.splits)
  have top: "\<exists>sel rest.
           availableQualities (selectOptimalAudioSource ds) = sel # rest
           \<and> selectedUrl (selectOptimalAudioSource ds) = url sel
           \<and> detectedQuality (selectOptimalAudioSource ds) = quality sel
           \<and> detectedBitrate (selectOptimalAudioSource ds) = bitrate sel
           \<and> (\<forall>c \<in> set cands. ranks_at_least sel c)"
    if ne: "filter usable ds \<noteq> []"
  proof -
    from ne have "cands \<noteq> []" by (simp add: cands_def)
    then have "sorted \<noteq> []" using perm by (metis mset_zero_iff)
    then obtain sel rest where sr: "sorted = sel # rest" by (cases sorted) auto
    have self: "ranks_at_least sel sel"
      by (simp add: ranks_at_least_def split: option.splits)
    have dom: "\<forall>c \<in> set cands. ranks_at_least sel c"
    proof
      fix c assume "c \<in> set cands"
      then have "c \<in> set sorted" using perm by (metis set_mset_mset)
      then show "ranks_at_least sel c" using ord self by (auto simp: sr)
    qed
    have dsne: "ds \<noteq> []" using ne by auto
    have "selectOptimalAudioSource ds =
            \<lparr>selectedUrl = url sel, detectedQuality = quality sel, detectedBitrate = bitrate sel,
             detectedFormat = Some (format sel), availableQualities = sorted\<rparr>"
      using sr dsne
      by (simp add: selectOptimalAudioSource_def Let_def sorted_def[symmetric] cands_def[symmetric])
    then show ?thesis using sr dom by simp
  qed
  have example: "selectedUrl (selectOptimalAudioSource
           [\<lparr>item_quality = Some ''96kbps'', link = u1\<rparr>,
            \<lparr>item_quality = Some ''160kbps'', link = u2\<rparr>,
            \<lparr>item_quality = Some ''320kbps'', link = u3\<rparr>]) = u3
      \<and> detectedQuality (selectOptimalAudioSource
           [\<lparr>item_quality = Some ''96kbps'', link = u1\<rparr>,
            \<lparr>item_quality = Some ''160kbps'', link = u2\<rparr>,
            \<lparr>item_quality = Some ''320kbps'', link = u3\<rparr>]) = High"
    if "trim u1 \<noteq> [] \<and> trim u2 \<noteq> [] \<and> trim u3 \<noteq> []"
  proof -
    from that have "u1 \<noteq> [] \<and> u2 \<noteq> [] \<and> u3 \<noteq> []"
      by (auto simp: trim_def)
    with that show ?thesis
      by (simp add: selectOptimalAudioSource_def usable_def analyse_tagged compareQualities_def
            has_bitrate_def)
  qed
  show ?thesis
    using perm ord top example unfolding avail cands_def[symmetric] by blast
qed

theorem selectOptimalAudioSource_ranking_witness:
  "selectedUrl (selectOptimalAudioSource
      [\<lparr>item_quality = Some ''96kbps'', link = ''https://cdn.example/a_96.mp4''\<rparr>,
       \<lparr>item_quality = Some ''160kbps'', link = ''https://cdn.example/a_160.mp4''\<rparr>,
       \<lparr>item_quality = Some ''320kbps'', link = ''https://cdn.example/a_320.mp4''\<rparr>])
     = ''https://cdn.example/a_320.mp4''
   \<and> detectedQuality (selectOptimalAudioSource
      [\<lparr>item_quality = Some ''96kbps'', link = ''https://cdn.example/a_96.mp4''\<rparr>,
       \<lparr>item_quality = Some ''160kbps'', link = ''https://cdn.example/a_160.mp4''\<rparr>,
       \<lparr>item_quality = Some ''320kbps'', link = ''https://cdn.example/a_320.mp4''\<rparr>])
     = High"
proof -
  have nonblank: "trim ''https://cdn.example/a_96.mp4'' \<noteq> []
      \<and> trim ''https://cdn.example/a_160.mp4'' \<noteq> []
      \<and> trim ''https://cdn.example/a_320.mp4'' \<noteq> []"
    by (simp add: trim_def is_space_def)
  show ?thesis
    using selectOptimalAudioSource_ranking
      [of "[]" "''https://cdn.example/a_96.mp4''" "''https://cdn.example/a_160.mp4''"
          "''https://cdn.example/a_320.mp4''"] nonblank
    by blast
qed

section \<open>Properties of the playback controller\<close>

lemma select_no_usable:
  assumes "\<forall>d \<in> set ds. \<not> usable d"
  shows "selectOptimalAudioSource ds = empty_decision"
proof -
  from assms have "filter usable ds = []" by (simp add: filter_empty_conv)
  then show ?thesis by (simp add: selectOptimalAudioSource_def)
qed

lemma proceedWithPlayback_unresolved:
  assumes "resolve_source song = None
           \<or> (\<exists>i. resolve_source song = Some i \<and> \<not> nonblank (selectedUrl i))"
  shows "proceedWithPlayback song s = s\<lparr>error := Some no_audio_url\<rparr>"
  using assms by (auto simp: proceedWithPlayback_def)

lemma playSong_frame:
  "queue (playSong x s) = queue s"
  "queueIndex (playSong x s) = queueIndex s"
  "activePlaylist (playSong x s) = activePlaylist s"
  "repeatMode (playSong x s) = repeatMode s"
  "isShuffle (playSong x s) = isShuffle s"
  by (simp_all add: playSong_def proceedWithPlayback_def Let_def split: option.splits)

lemma move_to_cursor:
  "queueIndex (move_to i s) = i"
  "activePlaylist (move_to i s) = map_option (\<lambda>p. p\<lparr>currentIndex := Some i\<rparr>) (activePlaylist s)"
  "queue (move_to i s) = queue s"
  by (simp_all add: move_to_def playSong_frame)


text \<open>
  C2 (as amended). \<open>selectOptimalAudioSource\<close> on an empty list returns the empty decision
  (no URL, tier \<open>unknown\<close>). A track whose \<open>downloadUrl\<close> list is non-empty but holds no
  usable link, or whose list is absent or empty and whose own \<open>url\<close> field is blank, is
  rejected: \<open>playSong\<close> records the error \<open>Cannot play song: No audio URL available\<close>,
  cancels a pending toggle timer and changes nothing else, so \<open>currentSong\<close>,
  \<open>currentAudioInfo\<close>, \<open>queue\<close> and \<open>queueIndex\<close> keep their values. A track without
  candidates whose \<open>url\<close> field is not blank is played from that field, with tier
  \<open>unknown\<close>.
\<close>

theorem playSong_no_source:
  "selectOptimalAudioSource [] = empty_decision
   \<and> selectedUrl empty_decision = [] \<and> detectedQuality empty_decision = Unknown
   \<and> ((downloadUrl song = Some ds \<and> ds \<noteq> [] \<and> (\<forall>d \<in> set ds. \<not> usable d))
       \<or> ((downloadUrl song = None \<or> downloadUrl song = Some []) \<and> \<not> nonblank (song_url song))
      \<longrightarrow> playSong (Some song) s = s\<lparr>playPauseTimeoutRef := None, error := Some no_audio_url\<rparr>
        \<and> currentSong (playSong (Some song) s) = currentSong s
        \<and> currentAudioInfo (playSong (Some song) s) = currentAudioInfo s
        \<and> queue (playSong (Some song) s) = queue s
        \<and> queueIndex (playSong (Some song) s) = queueIndex s)
   \<and> ((downloadUrl song = None \<or> downloadUrl song = Some []) \<and> nonblank (song_url song)
      \<longrightarrow> currentSong (playSong (Some song) s) = Some song
        \<and> currentAudioInfo (playSong (Some song) s)
            = Some \<lparr>selectedUrl = song_url song, detectedQuality = Unknown,
                    detectedBitrate = None, detectedFormat = None, availableQualities = []\<rparr>
        \<and> error (playSong (Some song) s) = None)"
proof -
  have a: "selectOptimalAudioSource [] = empty_decision"
    by (simp add: selectOptimalAudioSource_def)
  have b: "selectedUrl empty_decision = [] \<and> detectedQuality empty_decision = Unknown"
    by (simp add: empty_decision_def)
  have c: "playSong (Some song) s = s\<lparr>playPauseTimeoutRef := None, error := Some no_audio_url\<rparr>"
    if "(downloadUrl song = Some ds \<and> ds \<noteq> [] \<and> (\<forall>d \<in> set ds. \<not> usable d))
       \<or> ((downloadUrl song = None \<or> downloadUrl song = Some []) \<and> \<not> nonblank (song_url song))"
  proof -
    from that have "resolve_source song = None
           \<or> (\<exists>i. resolve_source song = Some i \<and> \<not> nonblank (selectedUrl i))"
    proof (elim disjE conjE)
      assume d: "downloadUrl song = Some ds" "ds \<noteq> []" "\<forall>d \<in> set ds. \<not> usable d"
      then have "resolve_source song = Some (selectOptimalAudioSource ds)"
        by (cases ds) (simp_all add: resolve_source_def)
      with d(3) show ?thesis
        by (simp add: select_no_usable empty_decision_def nonblank_def)
    qed (simp_all add: resolve_source_def)
    then show ?thesis
      by (simp add: playSong_def proceedWithPlayback_unresolved)
  qed
  have d: "currentSong (playSong (Some song) s) = Some song
        \<and> currentAudioInfo (playSong (Some song) s)
            = Some \<lparr>selectedUrl = song_url song, detectedQuality = Unknown,
                    detectedBitrate = None, detectedFormat = None, availableQualities = []\<rparr>
        \<and> error (playSong (Some song) s) = None"
    if "(downloadUrl song = None \<or> downloadUrl song = Some []) \<and> nonblank (song_url song)"
  proof -
    from that have "resolve_source song =
        Some \<lparr>selectedUrl = song_url song, detectedQuality = Unknown,
                    detectedBitrate = None, detectedFormat = None, availableQualities = []\<rparr>"
      by (auto simp: resolve_source_def)
    with that show ?thesis
      by (simp add: playSong_def proceedWithPlayback_def Let_def split: option.splits)
  qed
  show ?thesis using a b c d by (simp add: playSong_frame)
qed

theorem playSong_no_source_witness:
  "playSong (Some trackEmptyLinks) playingA
     = playingA\<lparr>playPauseTimeoutRef := None, error := Some no_audio_url\<rparr>
   \<and> currentSong (playSong (Some trackEmptyLinks) playingA) = Some trackA
   \<and> currentSong (playSong (Some trackNoCandidates) playingA) = Some trackNoCandidates"
proof -
  have h1: "downloadUrl trackEmptyLinks = Some [\<lparr>item_quality = Some ''320kbps'', link = []\<rparr>]
      \<and> [\<lparr>item_quality = Some ''320kbps'', link = []\<rparr>] \<noteq> []
      \<and> (\<forall>d \<in> set [\<lparr>item_quality = Some ''320kbps'', link = []\<rparr>]. \<not> usable d)"
    by (simp add: trackEmptyLinks_def usable_def)
  have h2: "(downloadUrl trackNoCandidates = None \<or> downloadUrl trackNoCandidates = Some [])
      \<and> nonblank (song_url trackNoCandidates)"
    by (simp add: trackNoCandidates_def nonblank_def trim_def is_space_def)
  have cur: "currentSong playingA = Some trackA"
    by (simp add: playingA_def)
  show ?thesis
    using playSong_no_source[of trackEmptyLinks "[\<lparr>item_quality = Some ''320kbps'', link = []\<rparr>]" playingA]
      playSong_no_source[of trackNoCandidates "[]" playingA] h1 h2 cur
    by simp
qed

text \<open>
  The claim as stated fails for a track with zero audio candidates and a non-blank
  \<open>url\<close> field: \<open>select()\<close> on its empty candidate list gives no URL, yet the track
  becomes the current song, played from \<open>url\<close>, and no error is recorded.
\<close>

theorem playSong_url_fallback_counterexample:
  "downloadUrl trackNoCandidates = Some []
   \<and> selectedUrl (selectOptimalAudioSource []) = []
   \<and> currentSong playingA = Some trackA
   \<and> currentSong (playSong (Some trackNoCandidates) playingA) = Some trackNoCandidates
   \<and> map_option selectedUrl (currentAudioInfo (playSong (Some trackNoCandidates) playingA))
       = Some ''https://cdn.example/c.mp3''
   \<and> error (playSong (Some trackNoCandidates) playingA) = None"
  by code_simp


lemma proceedWithPlayback_resolved:
  assumes "resolve_source song = Some info" and "nonblank (selectedUrl info)"
  shows "currentSong (proceedWithPlayback song s) = Some song"
    and "currentAudioInfo (proceedWithPlayback song s) = Some info"
    and "error (proceedWithPlayback song s) = None"
    and "audioRef (proceedWithPlayback song s) =
           map_option (\<lambda>a. a\<lparr>paused := False, position := 0, src := selectedUrl info,
                                element_volume := volume s,
                                play_requests := Suc (play_requests a)\<rparr>) (audioRef s)"
  using assms
  by (cases "audioRef s"; simp add: proceedWithPlayback_def start_element_def Let_def)+

lemma proceedWithPlayback_rejected:
  assumes "resolve_source song = None
           \<or> (\<exists>i. resolve_source song = Some i \<and> \<not> nonblank (selectedUrl i))"
  shows "currentSong (proceedWithPlayback song s) = currentSong s"
    and "audioRef (proceedWithPlayback song s) = audioRef s"
    and "error (proceedWithPlayback song s) = Some no_audio_url"
  using proceedWithPlayback_unresolved[OF assms, of s] by simp_all

lemma resolve_trackA:
  "resolve_source trackA = Some decisionA \<and> nonblank (selectedUrl decisionA)"
  by code_simp

text \<open>
  C4 (as amended). With shuffle off, a non-empty list and the cursor on its last index:
  under repeat mode \<open>all\<close>, \<open>playNext\<close> moves \<open>queueIndex\<close> and the active playlist's
  cursor to 0 and calls \<open>playSong\<close> on the first track, which for a list of length 1 is
  the track at the cursor. When that track has a usable stream URL it becomes the
  current song, the error is cleared, and the element is rewound to 0, given the URL
  and the volume, and started; when it has none, the error
  \<open>Cannot play song: No audio URL available\<close> is recorded and the current song and the
  element stay as they were. Under any other repeat mode \<open>playNext\<close> clears \<open>isPlaying\<close>,
  pauses the element, sets its position to 0 and changes nothing else, so both cursors
  stay. In every case \<open>playNext\<close> returns (it raises nothing).
\<close>

theorem playNext_at_end:
  assumes "\<not> isShuffle s"
    and "playlistToUse s \<noteq> []"
    and "playlistIndex s = int (length (playlistToUse s)) - 1"
  shows "(repeatMode s = RepeatAll \<longrightarrow>
            playNext rs s = Some (move_to 0 s, rs)
          \<and> queueIndex (move_to 0 s) = 0
          \<and> playlistIndex (move_to 0 s) = 0
          \<and> (length (playlistToUse s) = 1 \<longrightarrow>
                item_at (playlistToUse s) (playlistIndex s) = Some (hd (playlistToUse s)))
          \<and> (resolve_source (hd (playlistToUse s)) = Some info \<and> nonblank (selectedUrl info) \<longrightarrow>
                currentSong (move_to 0 s) = Some (hd (playlistToUse s))
              \<and> currentAudioInfo (move_to 0 s) = Some info
              \<and> error (move_to 0 s) = None
              \<and> audioRef (move_to 0 s) =
                  map_option (\<lambda>a. a\<lparr>paused := False, position := 0, src := selectedUrl info,
                                       element_volume := volume s,
                                       play_requests := Suc (play_requests a)\<rparr>) (audioRef s))
          \<and> (resolve_source (hd (playlistToUse s)) = None
              \<or> (\<exists>i. resolve_source (hd (playlistToUse s)) = Some i \<and> \<not> nonblank (selectedUrl i))
              \<longrightarrow>
                currentSong (move_to 0 s) = currentSong s
              \<and> audioRef (move_to 0 s) = audioRef s
              \<and> error (move_to 0 s) = Some no_audio_url))
       \<and> (repeatMode s \<noteq> RepeatAll \<longrightarrow>
            playNext rs s =
              Some (s\<lparr>isPlaying := False,
                      audioRef := map_option (\<lambda>a. a\<lparr>paused := True, position := 0\<rparr>) (audioRef s)\<rparr>,
                    rs))
       \<and> (\<exists>s'. playNext rs s = Some (s', rs))"
proof -
  define first where "first = hd (playlistToUse s)"
  define s0 where
    "s0 = s\<lparr>activePlaylist := map_option (\<lambda>p. p\<lparr>currentIndex := Some 0\<rparr>) (activePlaylist s),
            queueIndex := 0, playPauseTimeoutRef := None\<rparr>"
  from assms(2) have len: "0 < length (playlistToUse s)" by simp
  have idx: "0 \<le> playlistIndex s" using assms(3) len by simp
  have hd0: "item_at (playlistToUse s) 0 = Some first"
    using assms(2) by (cases "playlistToUse s") (simp_all add: item_at_def first_def)
  have mv: "move_to 0 s = proceedWithPlayback first s0"
    by (simp add: move_to_def hd0 playSong_def s0_def)
  have s0_fields: "currentSong s0 = currentSong s" "audioRef s0 = audioRef s" "volume s0 = volume s"
    by (simp_all add: s0_def)
  have all: "playNext rs s = Some (move_to 0 s, rs)" if "repeatMode s = RepeatAll"
    using that assms len idx by (simp add: playNext_def Let_def)
  have other: "playNext rs s =
              Some (s\<lparr>isPlaying := False,
                      audioRef := map_option (\<lambda>a. a\<lparr>paused := True, position := 0\<rparr>) (audioRef s)\<rparr>,
                    rs)" if "repeatMode s \<noteq> RepeatAll"
    using that assms len idx by (simp add: playNext_def Let_def stop_playback_def)
  have qi: "queueIndex (move_to 0 s) = 0"
    by (simp add: move_to_cursor)
  have pi: "playlistIndex (move_to 0 s) = 0"
    by (simp add: playlistIndex_def move_to_cursor split: option.splits)
  have one: "item_at (playlistToUse s) (playlistIndex s) = Some first"
    if "length (playlistToUse s) = 1"
    using that assms(3) hd0 by simp
  have played: "currentSong (move_to 0 s) = Some first
              \<and> currentAudioInfo (move_to 0 s) = Some info
              \<and> error (move_to 0 s) = None
              \<and> audioRef (move_to 0 s) =
                  map_option (\<lambda>a. a\<lparr>paused := False, position := 0, src := selectedUrl info,
                                       element_volume := volume s,
                                       play_requests := Suc (play_requests a)\<rparr>) (audioRef s)"
    if "resolve_source first = Some info \<and> nonblank (selectedUrl info)"
    using proceedWithPlayback_resolved[of first info s0] that
    by (simp add: mv s0_fields)
  have rejected: "currentSong (move_to 0 s) = currentSong s
              \<and> audioRef (move_to 0 s) = audioRef s
              \<and> error (move_to 0 s) = Some no_audio_url"
    if "resolve_source first = None
        \<or> (\<exists>i. resolve_source first = Some i \<and> \<not> nonblank (selectedUrl i))"
    using proceedWithPlayback_rejected[OF that, of s0]
    by (simp add: mv s0_fields)
  have ex: "\<exists>s'. playNext rs s = Some (s', rs)"
    using all other by (cases "repeatMode s = RepeatAll") auto
  show ?thesis
    using all other qi pi one played rejected ex
    unfolding first_def
    by blast
qed


theorem playNext_at_end_witness:
  "map_option (currentSong \<circ> fst) (playNext [] (playingA\<lparr>queue := [trackA], repeatMode := RepeatAll\<rparr>))
     = Some (Some trackA)
   \<and> map_option (audioRef \<circ> fst) (playNext [] (playingA\<lparr>queue := [trackA], repeatMode := RepeatAll\<rparr>))
     = Some (Some \<lparr>paused = False, position = 0, src = ''https://cdn.example/a_320.mp4'',
                    element_volume = 1, play_requests = 1\<rparr>)
   \<and> map_option (queueIndex \<circ> fst) (playNext [] (playingA\<lparr>queue := [trackA], repeatMode := RepeatAll\<rparr>))
     = Some 0
   \<and> playNext [] (playingA\<lparr>queue := [trackA], repeatMode := RepeatNone\<rparr>)
     = Some (playingA\<lparr>queue := [trackA], repeatMode := RepeatNone, isPlaying := False,
               audioRef := Some \<lparr>paused = True, position = 0,
                                  src = ''https://cdn.example/a_320.mp4'',
                                  element_volume = 1, play_requests = 0\<rparr>\<rparr>, [])"
proof -
  have h1: "\<not> isShuffle (playingA\<lparr>queue := [trackA], repeatMode := m\<rparr>)" for m
    by (simp add: playingA_def player0_def)
  have h2: "playlistToUse (playingA\<lparr>queue := [trackA], repeatMode := m\<rparr>) \<noteq> []" for m
    by (simp add: playingA_def player0_def playlistToUse_def)
  have h3: "playlistIndex (playingA\<lparr>queue := [trackA], repeatMode := m\<rparr>)
          = int (length (playlistToUse (playingA\<lparr>queue := [trackA], repeatMode := m\<rparr>))) - 1" for m
    by (simp add: playingA_def player0_def playlistToUse_def playlistIndex_def)
  have first: "hd (playlistToUse (playingA\<lparr>queue := [trackA], repeatMode := m\<rparr>)) = trackA" for m
    by (simp add: playingA_def player0_def playlistToUse_def)
  have m1: "repeatMode (playingA\<lparr>queue := [trackA], repeatMode := RepeatAll\<rparr>) = RepeatAll"
    and m2: "repeatMode (playingA\<lparr>queue := [trackA], repeatMode := RepeatNone\<rparr>) \<noteq> RepeatAll"
    by simp_all
  have src: "resolve_source (hd (playlistToUse (playingA\<lparr>queue := [trackA], repeatMode := RepeatAll\<rparr>)))
               = Some decisionA \<and> nonblank (selectedUrl decisionA)"
    using resolve_trackA by (simp only: first)
  from playNext_at_end
         [where s = "playingA\<lparr>queue := [trackA], repeatMode := RepeatAll\<rparr>"
            and info = decisionA and rs = "[]", OF h1 h2 h3] m1 src
  have a: "playNext [] (playingA\<lparr>queue := [trackA], repeatMode := RepeatAll\<rparr>)
          = Some (move_to 0 (playingA\<lparr>queue := [trackA], repeatMode := RepeatAll\<rparr>), [])"
    and b: "queueIndex (move_to 0 (playingA\<lparr>queue := [trackA], repeatMode := RepeatAll\<rparr>)) = 0"
    and c: "currentSong (move_to 0 (playingA\<lparr>queue := [trackA], repeatMode := RepeatAll\<rparr>))
              = Some (hd (playlistToUse (playingA\<lparr>queue := [trackA], repeatMode := RepeatAll\<rparr>)))"
    and d: "audioRef (move_to 0 (playingA\<lparr>queue := [trackA], repeatMode := RepeatAll\<rparr>)) =
              map_option (\<lambda>a. a\<lparr>paused := False, position := 0, src := selectedUrl decisionA,
                                   element_volume := volume (playingA\<lparr>queue := [trackA], repeatMode := RepeatAll\<rparr>),
                                   play_requests := Suc (play_requests a)\<rparr>)
                (audioRef (playingA\<lparr>queue := [trackA], repeatMode := RepeatAll\<rparr>))"
    by blast+
  from playNext_at_end
         [where s = "playingA\<lparr>queue := [trackA], repeatMode := RepeatNone\<rparr>"
            and info = decisionA and rs = "[]", OF h1 h2 h3] m2
  have e: "playNext [] (playingA\<lparr>queue := [trackA], repeatMode := RepeatNone\<rparr>) =
              Some (playingA\<lparr>queue := [trackA], repeatMode := RepeatNone\<rparr>
                      \<lparr>isPlaying := False,
                       audioRef := map_option (\<lambda>a. a\<lparr>paused := True, position := 0\<rparr>)
                          (audioRef (playingA\<lparr>queue := [trackA], repeatMode := RepeatNone\<rparr>))\<rparr>,
                    [])"
    by blast
  have p1: "map_option (currentSong \<circ> fst) (playNext [] (playingA\<lparr>queue := [trackA], repeatMode := RepeatAll\<rparr>))
     = Some (Some trackA)"
    by (simp add: a c first)
  have d': "audioRef (move_to 0 (playingA\<lparr>queue := [trackA], repeatMode := RepeatAll\<rparr>))
     = Some \<lparr>paused = False, position = 0, src = ''https://cdn.example/a_320.mp4'',
              element_volume = 1, play_requests = 1\<rparr>"
    unfolding d by (simp add: decisionA_def playingA_def player0_def element0_def)
  have p2: "map_option (audioRef \<circ> fst) (playNext [] (playingA\<lparr>queue := [trackA], repeatMode := RepeatAll\<rparr>))
     = Some (Some \<lparr>paused = False, position = 0, src = ''https://cdn.example/a_320.mp4'',
                    element_volume = 1, play_requests = 1\<rparr>)"
    by (simp only: a d' option.map_sel option.simps comp_apply fst_conv)
  have p3: "map_option (queueIndex \<circ> fst) (playNext [] (playingA\<lparr>queue := [trackA], repeatMode := RepeatAll\<rparr>))
     = Some 0"
    by (simp add: a b)
  have p4: "playNext [] (playingA\<lparr>queue := [trackA], repeatMode := RepeatNone\<rparr>)
     = Some (playingA\<lparr>queue := [trackA], repeatMode := RepeatNone, isPlaying := False,
               audioRef := Some \<lparr>paused = True, position = 0,
                                  src = ''https://cdn.example/a_320.mp4'',
                                  element_volume = 1, play_requests = 0\<rparr>\<rparr>, [])"
    using e by (simp add: playingA_def player0_def element0_def)
  show ?thesis using p1 p2 p3 p4 by blast
qed

text \<open>
  The claim as stated fails for a queue of length 1 whose track has no usable stream
  URL: under repeat mode \<open>all\<close>, \<open>playNext\<close> records the error and nothing is played
  again; the element keeps playing track A at 42 s and \<open>play()\<close> is not called.
\<close>

theorem playNext_unplayable_counterexample:
  "isShuffle stalledD = False \<and> repeatMode stalledD = RepeatAll
   \<and> playlistToUse stalledD = [trackEmptyLinks] \<and> playlistIndex stalledD = 0
   \<and> currentSong stalledD = Some trackA
   \<and> audioRef stalledD
       = Some \<lparr>paused = False, position = 42, src = ''https://cdn.example/a_320.mp4'',
                element_volume = 1, play_requests = 0\<rparr>
   \<and> map_option (currentSong \<circ> fst) (playNext [] stalledD) = Some (Some trackA)
   \<and> map_option (audioRef \<circ> fst) (playNext [] stalledD)
       = Some (Some \<lparr>paused = False, position = 42, src = ''https://cdn.example/a_320.mp4'',
                      element_volume = 1, play_requests = 0\<rparr>)
   \<and> map_option (error \<circ> fst) (playNext [] stalledD) = Some (Some no_audio_url)"
  by code_simp


text \<open>
  C1 (the code at the failing input). Track A of the queue \<open>[A, B]\<close> is playing with
  repeat mode \<open>one\<close> and shuffle off when the \<open>ended\<close> event fires: the handler calls
  \<open>playNext\<close>, which moves the cursor to 1 and plays track B. This is so for the listener
  added at mount (whose closure holds repeat mode \<open>none\<close>) and would be so for a listener
  holding the current mode \<open>one\<close>: \<open>playNext\<close> has no case for it.
\<close>

theorem handleEnded_repeat_one_advances:
  "repeatMode playingA = RepeatOne \<and> isShuffle playingA = False
   \<and> queueIndex playingA = 0 \<and> currentSong playingA = Some trackA
   \<and> map_option (queueIndex \<circ> fst) (handleEnded RepeatNone False 1 [] playingA) = Some 1
   \<and> map_option (currentSong \<circ> fst) (handleEnded RepeatNone False 1 [] playingA)
       = Some (Some trackB)
   \<and> map_option (queueIndex \<circ> fst) (handleEnded RepeatOne False 1 [] playingA) = Some 1
   \<and> map_option (currentSong \<circ> fst) (handleEnded RepeatOne False 1 [] playingA)
       = Some (Some trackB)"
  by code_simp

text \<open>
  C9 (as amended). \<open>seekTo\<close> changes nothing when \<open>time\<close> is \<open>NaN\<close>, negative or
  infinite, or when there is no audio element. For every finite non-negative \<open>time\<close>,
  whatever the duration, it assigns \<open>time\<close> to the element's \<open>currentTime\<close> and to the
  \<open>currentTime\<close> state. It never throws.
\<close>

theorem seekTo_guard:
  "(time = NaN \<or> time = NegInfinity \<or> (\<exists>x. time = Finite x \<and> x < 0) \<longrightarrow> seekTo time s = s)
   \<and> (audioRef s = None \<longrightarrow> seekTo time s = s)
   \<and> seekTo PosInfinity s = s
   \<and> (audioRef s = Some a \<and> 0 \<le> x \<longrightarrow>
        seekTo (Finite x) s = s\<lparr>audioRef := Some (a\<lparr>position := x\<rparr>), currentTime := x\<rparr>)"
  by (auto simp: seekTo_def is_nan_def ge_zero_def set_currentTime_def split: option.splits)

theorem seekTo_guard_witness:
  "seekTo (Finite (- 5)) playingA = playingA
   \<and> currentTime (seekTo (Finite 30) playingA) = 30
   \<and> map_option position (audioRef (seekTo (Finite 30) playingA)) = Some 30"
  using seekTo_guard[of "Finite (- 5)" playingA]
    seekTo_guard[of NaN playingA "element0\<lparr>paused := False, position := 42, src := ''https://cdn.example/a_320.mp4''\<rparr>" 30]
  by (simp add: playingA_def player0_def)

text \<open>
  The claim as stated fails beyond the duration: with a duration of 100 s,
  \<open>seekTo(200)\<close> sets the \<open>currentTime\<close> state and the element's \<open>currentTime\<close> to 200.
\<close>

theorem seekTo_beyond_duration_counterexample:
  "duration playingA = 100 \<and> currentTime playingA = 42
   \<and> currentTime (seekTo (Finite 200) playingA) = 200
   \<and> map_option position (audioRef (seekTo (Finite 200) playingA)) = Some 200"
  by (simp add: seekTo_def is_nan_def ge_zero_def set_currentTime_def playingA_def player0_def)

lemma zip_indexed: "zip xs (map f [0..<length xs]) = map (\<lambda>i. (xs ! i, f i)) [0..<length xs]"
  by (rule nth_equalityI) simp_all

lemma sameLanguageSongs_pool:
  "sameLanguageSongs pl lang =
     map (\<lambda>i. (pl ! i, int i)) (filter (\<lambda>i. language (pl ! i) = Some lang) [0..<length pl])"
  by (simp add: sameLanguageSongs_def zip_indexed filter_map comp_def)

lemma findIndex_first:
  assumes "k < length xs" and "P (xs ! k)" and "\<forall>j<k. \<not> P (xs ! j)"
  shows "findIndex P xs = int k"
  using assms
proof (induction xs arbitrary: k)
  case Nil
  then show ?case by simp
next
  case (Cons x xs)
  show ?case
  proof (cases k)
    case 0
    with Cons.prems show ?thesis by simp
  next
    case (Suc m)
    with Cons.prems have nx: "\<not> P x" by auto
    have "findIndex P xs = int m"
    proof (rule Cons.IH)
      show "m < length xs" using Cons.prems(1) Suc by simp
      show "P (xs ! m)" using Cons.prems(2) Suc by simp
      show "\<forall>j<m. \<not> P (xs ! j)"
      proof (intro allI impI)
        fix j assume "j < m"
        then have "Suc j < k" using Suc by simp
        with Cons.prems(3) have "\<not> P ((x # xs) ! Suc j)" by blast
        then show "\<not> P (xs ! j)" by simp
      qed
    qed
    with nx Suc show ?thesis by (simp add: Let_def)
  qed
qed

lemma random_other_differs:
  assumes "random_other rs n cur = Some (k, rs')" and "1 < n"
  shows "k \<noteq> cur"
  using assms
  by (induction rs) (auto simp: Let_def split: if_splits)

lemma random_other_finds:
  assumes "r \<in> set rs" and "\<lfloor>r * real n\<rfloor> \<noteq> cur" and "1 < n"
  shows "\<exists>r' rs'. r' \<in> set rs \<and> random_other rs n cur = Some (\<lfloor>r' * real n\<rfloor>, rs')"
  using assms
proof (induction rs)
  case Nil
  then show ?case by simp
next
  case (Cons a rs)
  show ?case
  proof (cases "\<lfloor>a * real n\<rfloor> = cur")
    case True
    with Cons.prems have "r \<in> set rs" by auto
    from Cons.IH[OF this Cons.prems(2,3)] True Cons.prems(3) show ?thesis
      by (auto simp: Let_def)
  next
    case False
    then have "random_other (a # rs) n cur = Some (\<lfloor>a * real n\<rfloor>, rs)"
      by (simp add: Let_def)
    then show ?thesis by auto
  qed
qed

lemma floor_draw_range:
  assumes "0 \<le> r" and "r < 1" and "0 < n"
  shows "0 \<le> \<lfloor>r * real n\<rfloor> \<and> \<lfloor>r * real n\<rfloor> < int n"
proof -
  have "0 \<le> r * real n" using assms by simp
  then have a: "0 \<le> \<lfloor>r * real n\<rfloor>" by simp
  have "r * real n < 1 * real n" using assms by (intro mult_strict_right_mono) simp_all
  then have "r * real n < real_of_int (int n)" by simp
  then have b: "\<lfloor>r * real n\<rfloor> < int n" by (simp only: floor_less_iff)
  show ?thesis using a b by simp
qed

lemma move_to_playlistIndex: "playlistIndex (move_to i s) = i"
  by (simp add: playlistIndex_def move_to_cursor split: option.splits)

lemma pool_ABF: "language_pool (tracks playlistABF) 0 = [0, 1]"
  by code_simp

lemma pool_FB: "language_pool (tracks playlistFB) 1 = [1]"
  by code_simp

text \<open>
  C3 (as amended). Shuffle is on, the active playlist carries a language tag and has
  more than one track, and the track at the cursor carries that tag; the pool is the
  tracks sharing its language. When the pool has more than one member, every index
  \<open>playNext\<close> can choose lies in the pool and differs from the cursor, both cursors are
  set to it, and \<open>playNext\<close> returns as soon as \<open>Math.random\<close> yields a value that
  picks another pool member. When the pool has exactly one member, the next index is
  the cursor plus one, wrapping to 0 past the end whatever the repeat mode.
\<close>

theorem playNext_shuffle_language:
  assumes sh: "isShuffle s"
    and ap: "activePlaylist s = Some p"
    and lg: "playlist_language p = Some lang" "lang \<noteq> []"
    and ci: "playlistIndex s = int cur"
    and cur: "cur < length (tracks p)"
    and len: "1 < length (tracks p)"
    and cl: "language (tracks p ! cur) = Some lang"
  shows "(1 < length (language_pool (tracks p) cur) \<longrightarrow>
            (\<forall>s' rs'. playNext rs s = Some (s', rs') \<longrightarrow>
               (\<exists>i \<in> set (language_pool (tracks p) cur).
                  i \<noteq> cur \<and> queueIndex s' = int i \<and> playlistIndex s' = int i))
          \<and> ((\<forall>r \<in> set rs. 0 \<le> r \<and> r < 1)
              \<and> (\<exists>r \<in> set rs.
                    language_pool (tracks p) cur
                      ! nat \<lfloor>r * real (length (language_pool (tracks p) cur))\<rfloor> \<noteq> cur)
              \<longrightarrow> (\<exists>s' rs'. playNext rs s = Some (s', rs'))))
       \<and> (length (language_pool (tracks p) cur) = 1 \<longrightarrow>
            playNext rs s = Some (move_to (wrap_next (int cur) (length (tracks p))) s, rs)
          \<and> queueIndex (move_to (wrap_next (int cur) (length (tracks p))) s)
              = wrap_next (int cur) (length (tracks p)))"
proof -
  define pl where "pl = tracks p"
  define pool where "pool = language_pool pl cur"
  define same where "same = sameLanguageSongs pl lang"
  define P where "P = (\<lambda>(song :: Song, index). index = int cur)"
  define n where "n = length pool"
  have ptu: "playlistToUse s = pl" by (simp add: playlistToUse_def ap pl_def)
  have pidx: "playlistIndex s = int cur" by (rule ci)
  have tag: "language_tag s = Some lang" by (simp add: language_tag_def ap lg)
  have pool_eq: "pool = filter (\<lambda>i. language (pl ! i) = Some lang) [0..<length pl]"
    using cl by (simp add: pool_def language_pool_def pl_def)
  have same_eq: "same = map (\<lambda>i. (pl ! i, int i)) pool"
    by (simp add: same_def sameLanguageSongs_pool pool_eq)
  have lsame: "length same = n" by (simp add: same_eq n_def)
  have dist: "distinct pool" by (simp add: pool_eq)
  have cur_in: "cur \<in> set pool" using cur cl by (simp add: pool_eq pl_def)
  then obtain k0 where k0: "k0 < n" "pool ! k0 = cur"
    by (auto simp: in_set_conv_nth n_def)
  have firstpos: "findIndex P same = int k" if "k < n" "pool ! k = cur" for k
  proof (rule findIndex_first)
    show "k < length same" using that lsame by simp
    show "P (same ! k)" using that by (simp add: same_eq P_def n_def)
    show "\<forall>j<k. \<not> P (same ! j)"
    proof (intro allI impI)
      fix j assume jk: "j < k"
      then have "pool ! j \<noteq> pool ! k"
        using dist that(1) by (simp add: nth_eq_iff_index_eq n_def)
      then show "\<not> P (same ! j)" using jk that by (simp add: same_eq P_def n_def)
    qed
  qed
  have fi: "findIndex P same = int k0" using firstpos k0 by simp
  have plne: "pl \<noteq> []" using len by (auto simp: pl_def)
  have unfold_many: "playNext rs s =
      (case random_other rs n (int k0) of
         None \<Rightarrow> None
       | Some (k, rs') \<Rightarrow>
           (case item_at same k of
              None \<Rightarrow> None
            | Some (song, index) \<Rightarrow> Some (move_to index s, rs')))" if "1 < n"
    using that sh len cur plne
    by (simp add: playNext_def ptu pidx tag Let_def same_def[symmetric] lsame
          P_def[symmetric] fi pl_def[symmetric])
  have unfold_one: "playNext rs s = Some (move_to (wrap_next (int cur) (length pl)) s, rs)"
    if "n = 1"
    using that sh len cur plne
    by (simp add: playNext_def ptu pidx tag Let_def same_def[symmetric] lsame wrap_next_def
          pl_def[symmetric])
  have safety: "\<exists>i \<in> set pool. i \<noteq> cur \<and> queueIndex s' = int i \<and> playlistIndex s' = int i"
    if many: "1 < n" and res: "playNext rs s = Some (s', rs')" for s' rs'
  proof -
    from res unfold_many[OF many] obtain k rs1 song index where
      ro: "random_other rs n (int k0) = Some (k, rs1)"
      and it: "item_at same k = Some (song, index)"
      and s': "s' = move_to index s"
      by (auto split: option.splits prod.splits)
    from it have kr: "0 \<le> k" "k < int n" and sk: "same ! nat k = (song, index)"
      by (auto simp: item_at_def lsame split: if_splits)
    then have nk: "nat k < n" by simp
    have index: "index = int (pool ! nat k)"
      using sk nk by (simp add: same_eq n_def)
    have mem: "pool ! nat k \<in> set pool" using nk by (simp add: n_def)
    have ne: "pool ! nat k \<noteq> cur"
    proof
      assume "pool ! nat k = cur"
      with firstpos[OF nk] fi have "int k0 = int (nat k)" by simp
      then have "k = int k0" using kr by simp
      with random_other_differs[OF ro many] show False by simp
    qed
    show ?thesis
      using mem ne by (auto simp: s' index move_to_cursor move_to_playlistIndex)
  qed
  have liveness: "\<exists>s' rs'. playNext rs s = Some (s', rs')"
    if many: "1 < n" and range: "\<forall>r \<in> set rs. 0 \<le> r \<and> r < 1"
      and other: "\<exists>r \<in> set rs. pool ! nat \<lfloor>r * real n\<rfloor> \<noteq> cur"
  proof -
    from other obtain r where r: "r \<in> set rs" "pool ! nat \<lfloor>r * real n\<rfloor> \<noteq> cur" by blast
    have "\<lfloor>r * real n\<rfloor> \<noteq> int k0"
    proof
      assume "\<lfloor>r * real n\<rfloor> = int k0"
      then have "pool ! nat \<lfloor>r * real n\<rfloor> = cur" using k0 by simp
      with r show False by simp
    qed
    from random_other_finds[OF r(1) this many] obtain r' rs' where
      r': "r' \<in> set rs" "random_other rs n (int k0) = Some (\<lfloor>r' * real n\<rfloor>, rs')"
      by blast
    from range r'(1) many have "0 \<le> \<lfloor>r' * real n\<rfloor> \<and> \<lfloor>r' * real n\<rfloor> < int n"
      by (intro floor_draw_range) auto
    then obtain song index where "item_at same \<lfloor>r' * real n\<rfloor> = Some (song, index)"
      by (cases "same ! nat \<lfloor>r' * real n\<rfloor>") (auto simp: item_at_def lsame)
    with r'(2) unfold_many[OF many] show ?thesis by simp
  qed
  have single: "queueIndex (move_to (wrap_next (int cur) (length pl)) s)
                  = wrap_next (int cur) (length pl)"
    by (simp add: move_to_cursor)
  show ?thesis
    using safety liveness unfold_one single
    unfolding pool_def[symmetric] pl_def[symmetric] n_def[symmetric]
    by blast
qed


theorem playNext_shuffle_language_witness:
  "(\<exists>s' rs'. playNext [1 / 4, 3 / 4] shuffledABF = Some (s', rs'))
   \<and> playNext [] shuffledFB = Some (move_to 0 shuffledFB, [])"
proof -
  have a: "isShuffle shuffledABF" "activePlaylist shuffledABF = Some playlistABF"
    "playlist_language playlistABF = Some ''english''" "''english'' \<noteq> []"
    "playlistIndex shuffledABF = int 0" "0 < length (tracks playlistABF)"
    "1 < length (tracks playlistABF)" "language (tracks playlistABF ! 0) = Some ''english''"
    by (simp_all add: shuffledABF_def player0_def playlistABF_def trackA_def playlistIndex_def)
  have draws: "(\<forall>r \<in> set [1 / 4, 3 / 4 :: real]. 0 \<le> r \<and> r < 1)
      \<and> (\<exists>r \<in> set [1 / 4, 3 / 4 :: real].
            language_pool (tracks playlistABF) 0
              ! nat \<lfloor>r * real (length (language_pool (tracks playlistABF) 0))\<rfloor> \<noteq> 0)"
    by (simp add: pool_ABF)
  have many: "1 < length (language_pool (tracks playlistABF) 0)"
    by (simp add: pool_ABF)
  from playNext_shuffle_language[OF a, of "[1 / 4, 3 / 4]"] many draws
  have one: "\<exists>s' rs'. playNext [1 / 4, 3 / 4] shuffledABF = Some (s', rs')"
    by blast
  have b: "isShuffle shuffledFB" "activePlaylist shuffledFB = Some playlistFB"
    "playlist_language playlistFB = Some ''english''" "''english'' \<noteq> []"
    "playlistIndex shuffledFB = int 1" "1 < length (tracks playlistFB)"
    "1 < length (tracks playlistFB)" "language (tracks playlistFB ! 1) = Some ''english''"
    by (simp_all add: shuffledFB_def player0_def playlistFB_def trackB_def playlistIndex_def)
  have single: "length (language_pool (tracks playlistFB) 1) = 1"
    using pool_FB by simp
  have w: "wrap_next (int 1) (length (tracks playlistFB)) = 0"
    by (simp add: wrap_next_def playlistFB_def)
  from playNext_shuffle_language[OF b, of "[]"] single
  have "playNext [] shuffledFB
          = Some (move_to (wrap_next (int 1) (length (tracks playlistFB))) shuffledFB, [])"
    by blast
  then have two: "playNext [] shuffledFB = Some (move_to 0 shuffledFB, [])"
    by (simp only: w)
  show ?thesis using one two by blast
qed

text \<open>
  The claim as stated fails for a singleton pool at the end of the list: in the playlist
  \<open>[F, B]\<close> tagged \<open>english\<close> with the cursor on B, shuffle on and repeat mode \<open>none\<close>,
  \<open>playNext\<close> wraps to index 0 and plays F, whereas the non-shuffle rule stops playback
  and keeps the cursor at 1.
\<close>

theorem shuffle_singleton_counterexample:
  "isShuffle shuffledFB \<and> repeatMode shuffledFB = RepeatNone
   \<and> map_option playlist_language (activePlaylist shuffledFB) = Some (Some ''english'')
   \<and> playlistIndex shuffledFB = 1
   \<and> language_pool (playlistToUse shuffledFB) 1 = [1]
   \<and> map_option (playlistIndex \<circ> fst) (playNext [] shuffledFB) = Some 0
   \<and> map_option (currentSong \<circ> fst) (playNext [] shuffledFB) = Some (Some trackF)
   \<and> playNext [] (shuffledFB\<lparr>isShuffle := False\<rparr>)
       = Some (stop_playback (shuffledFB\<lparr>isShuffle := False\<rparr>), [])
   \<and> playlistIndex (stop_playback (shuffledFB\<lparr>isShuffle := False\<rparr>)) = 1"
  by code_simp

section \<open>Properties of the processing graph\<close>

lemma disconnect_quietly_result:
  "disconnect_quietly P node m = (Inr (), m\<lparr>calls := calls m @ disconnects node\<rparr>)"
  by (cases node; cases "throws P (Disconnect (the node))")
     (simp_all add: disconnect_quietly_def disconnects_def ret_def try_catch_def call_def)

lemma close_quietly_result:
  "close_quietly P ctx m = (Inr (), m\<lparr>calls := calls m @ closes ctx\<rparr>)"
  by (cases ctx; cases "throws P (Close (the ctx))")
     (simp_all add: close_quietly_def closes_def ret_def try_catch_def call_def)

lemma dispose_result:
  "dispose P m = (Inr (), m\<lparr>proc := released (proc m), calls := calls m @ disposal_calls (proc m)\<rparr>)"
  by (simp add: dispose_def seq_def bind_def modify_def disconnect_quietly_result
        close_quietly_result released_def disposal_calls_def)

lemma released_fields:
  "audioContext (released a) = None" "sourceNode (released a) = None"
  "gainNode (released a) = None" "analyserNode (released a) = None"
  "lowShelf (released a) = None" "midPeaking (released a) = None"
  "highShelf (released a) = None" "compressorNode (released a) = None"
  "limiterNode (released a) = None" "\<not> isInitialized (released a)"
  by (simp_all add: released_def)

lemma released_idem: "released (released a) = released a"
  by (simp add: released_def)

lemma disposal_calls_released: "disposal_calls (released a) = []"
  by (simp add: disposal_calls_def released_fields disconnects_def closes_def)

lemma dispose_twice:
  "dispose P (snd (dispose P m)) = (Inr (), snd (dispose P m))"
  by (simp add: dispose_result released_idem disposal_calls_released)

lemma initializeProcessing_caught:
  assumes "initialize_body P m = (Inl e, m1)"
  shows "initializeProcessing P m =
           (Inr False, m1\<lparr>proc := released (proc m1), calls := calls m1 @ disposal_calls (proc m1)\<rparr>)"
  using assms
  by (simp add: initializeProcessing_def try_catch_def seq_def bind_def ret_def dispose_result)

lemma initializeProcessing_returns:
  "\<exists>r m'. initializeProcessing P m = (Inr r, m')"
proof (cases "initialize_body P m")
  case (Pair res m1)
  show ?thesis
  proof (cases res)
    case (Inl e)
    with Pair initializeProcessing_caught show ?thesis by blast
  next
    case (Inr r)
    with Pair show ?thesis by (simp add: initializeProcessing_def try_catch_def)
  qed
qed

lemma analyser_failure:
  "initialize_body no_analyser machine0 =
     (Inl OtherError,
      \<lparr>proc = processor0\<lparr>audioContext := Some 0, sourceNode := Some 1, gainNode := Some 2\<rparr>,
       calls = [NewAudioContext 0, CreateMediaElementSource 0 1, CreateGain 0 2, CreateAnalyser 0 3],
       next_id = 3\<rparr>)"
  by code_simp

text \<open>
  C10. On every platform, whichever of its calls throw, and from every state of the
  processor's fields (fully built, partly built or already disposed), \<open>dispose\<close> returns
  without an exception, has called \<open>disconnect\<close> on each node that was present (source,
  gain, analyser, the three filters, compressor, limiter) and \<open>close\<close> on the context if
  there was one, and leaves every field null and \<open>isInitialized\<close> false. A second call
  right after returns as well and changes nothing. \<open>initializeProcessing\<close> never throws;
  when its construction fails with an exception partway, it has disposed what was built
  and returns \<open>false\<close>, and a \<open>dispose\<close> after it returns and changes nothing.
\<close>

theorem dispose_safe:
  "dispose P m
     = (Inr (), m\<lparr>proc := released (proc m), calls := calls m @ disposal_calls (proc m)\<rparr>)
   \<and> audioContext (released (proc m)) = None \<and> sourceNode (released (proc m)) = None
   \<and> gainNode (released (proc m)) = None \<and> analyserNode (released (proc m)) = None
   \<and> lowShelf (released (proc m)) = None \<and> midPeaking (released (proc m)) = None
   \<and> highShelf (released (proc m)) = None \<and> compressorNode (released (proc m)) = None
   \<and> limiterNode (released (proc m)) = None \<and> \<not> isInitialized (released (proc m))
   \<and> dispose P (snd (dispose P m)) = (Inr (), snd (dispose P m))
   \<and> (\<exists>r m'. initializeProcessing P m = (Inr r, m'))
   \<and> (initialize_body P m = (Inl e, m1) \<longrightarrow>
        initializeProcessing P m
          = (Inr False,
             m1\<lparr>proc := released (proc m1), calls := calls m1 @ disposal_calls (proc m1)\<rparr>)
      \<and> dispose P (snd (initializeProcessing P m)) = (Inr (), snd (initializeProcessing P m)))"
proof -
  have part: "initializeProcessing P m
          = (Inr False,
             m1\<lparr>proc := released (proc m1), calls := calls m1 @ disposal_calls (proc m1)\<rparr>)
      \<and> dispose P (snd (initializeProcessing P m)) = (Inr (), snd (initializeProcessing P m))"
    if "initialize_body P m = (Inl e, m1)"
    using initializeProcessing_caught[OF that]
    by (simp add: dispose_result released_idem disposal_calls_released)
  show ?thesis
    using dispose_result[of P m] released_fields[of "proc m"] dispose_twice[of P m]
      initializeProcessing_returns[of P m] part
    by blast
qed

theorem dispose_safe_witness:
  "initializeProcessing no_analyser machine0
     = (Inr False,
        \<lparr>proc = processor0,
         calls = [NewAudioContext 0, CreateMediaElementSource 0 1, CreateGain 0 2,
                  CreateAnalyser 0 3, Disconnect 1, Disconnect 2, Close 0],
         next_id = 3\<rparr>)
   \<and> dispose no_analyser (snd (initializeProcessing no_analyser machine0))
     = (Inr (), snd (initializeProcessing no_analyser machine0))"
proof -
  note th = dispose_safe
    [of no_analyser machine0 OtherError
        "\<lparr>proc = processor0\<lparr>audioContext := Some 0, sourceNode := Some 1, gainNode := Some 2\<rparr>,
          calls = [NewAudioContext 0, CreateMediaElementSource 0 1, CreateGain 0 2,
                   CreateAnalyser 0 3],
          next_id = 3\<rparr>"]
  from th analyser_failure
  have a: "initializeProcessing no_analyser machine0
     = (Inr False,
        \<lparr>proc = processor0\<lparr>audioContext := Some 0, sourceNode := Some 1, gainNode := Some 2\<rparr>,
          calls = [NewAudioContext 0, CreateMediaElementSource 0 1, CreateGain 0 2,
                   CreateAnalyser 0 3],
          next_id = 3\<rparr>
        \<lparr>proc := released (proc
           \<lparr>proc = processor0\<lparr>audioContext := Some 0, sourceNode := Some 1, gainNode := Some 2\<rparr>,
            calls = [NewAudioContext 0, CreateMediaElementSource 0 1, CreateGain 0 2,
                     CreateAnalyser 0 3],
            next_id = 3\<rparr>),
         calls := calls
           \<lparr>proc = processor0\<lparr>audioContext := Some 0, sourceNode := Some 1, gainNode := Some 2\<rparr>,
            calls = [NewAudioContext 0, CreateMediaElementSource 0 1, CreateGain 0 2,
                     CreateAnalyser 0 3],
            next_id = 3\<rparr>
           @ disposal_calls (proc
           \<lparr>proc = processor0\<lparr>audioContext := Some 0, sourceNode := Some 1, gainNode := Some 2\<rparr>,
            calls = [NewAudioContext 0, CreateMediaElementSource 0 1, CreateGain 0 2,
                     CreateAnalyser 0 3],
            next_id = 3\<rparr>)\<rparr>)"
    and b: "dispose no_analyser (snd (initializeProcessing no_analyser machine0))
     = (Inr (), snd (initializeProcessing no_analyser machine0))"
    by blast+
  from a have a': "initializeProcessing no_analyser machine0
     = (Inr False,
        \<lparr>proc = processor0,
         calls = [NewAudioContext 0, CreateMediaElementSource 0 1, CreateGain 0 2,
                  CreateAnalyser 0 3, Disconnect 1, Disconnect 2, Close 0],
         next_id = 3\<rparr>)"
    by (simp add: released_def disposal_calls_def disconnects_def closes_def processor0_def)
  show ?thesis using a' b by blast
qed

end
